theory Spec2Isabelle
  imports Main
begin

section \<open>JavaScript values and the built-ins the service uses\<close>

text \<open>
  \<^verbatim>\<open>services/llmService.ts\<close> handles untyped data (\<^verbatim>\<open>any\<close>): the bodies of tool-server
  and model-list responses, tool arguments, and the request objects it builds itself.
  Such data is a \<open>jsval\<close>. Numbers are integers (no claim reads a fraction), strings
  are byte sequences in UTF-8, and an object lists its properties in enumeration order.
  The property names the source reads from untyped data (\<^verbatim>\<open>error\<close>, \<^verbatim>\<open>message\<close>,
  \<^verbatim>\<open>result\<close>, \<^verbatim>\<open>content\<close>, \<^verbatim>\<open>text\<close>, \<^verbatim>\<open>models\<close>, \<^verbatim>\<open>data\<close>, \<^verbatim>\<open>id\<close>, \<^verbatim>\<open>name\<close>,
  \<^verbatim>\<open>supportedGenerationMethods\<close>, \<^verbatim>\<open>role\<close>, \<^verbatim>\<open>type\<close>, \<^verbatim>\<open>image_url\<close>, \<^verbatim>\<open>url\<close>) are not
  members of a built-in prototype, so a read of one of them finds an own property or
  \<^verbatim>\<open>undefined\<close>.
\<close>

datatype jsval = JUndef | JNull | JBool bool | JNum int | JStr string
  | JArr "jsval list" | JObj "(string \<times> jsval) list"

datatype js_error = Error string | TypeError string | SyntaxError string

fun err_message :: "js_error \<Rightarrow> string" where
  "err_message (Error m) = m"
| "err_message (TypeError m) = m"
| "err_message (SyntaxError m) = m"

text \<open>Sequencing of steps that may throw: the first error ends the computation.\<close>

fun bindE :: "('err + 'a) \<Rightarrow> ('a \<Rightarrow> ('err + 'b)) \<Rightarrow> ('err + 'b)" where
  "bindE (Inl e) f = Inl e"
| "bindE (Inr x) f = f x"

fun mapE :: "('a \<Rightarrow> 'e + 'b) \<Rightarrow> 'a list \<Rightarrow> 'e + 'b list" where
  "mapE f [] = Inr []"
| "mapE f (x # xs) = bindE (f x) (\<lambda>y. bindE (mapE f xs) (\<lambda>ys. Inr (y # ys)))"

fun filterE :: "('a \<Rightarrow> 'e + bool) \<Rightarrow> 'a list \<Rightarrow> 'e + 'a list" where
  "filterE p [] = Inr []"
| "filterE p (x # xs) =
     bindE (p x) (\<lambda>b. bindE (filterE p xs) (\<lambda>ys. Inr (if b then x # ys else ys)))"

fun truthy :: "jsval \<Rightarrow> bool" where
  "truthy JUndef = False"
| "truthy JNull = False"
| "truthy (JBool b) = b"
| "truthy (JNum n) = (n \<noteq> 0)"
| "truthy (JStr s) = (s \<noteq> [])"
| "truthy (JArr xs) = True"
| "truthy (JObj kvs) = True"

fun nullish :: "jsval \<Rightarrow> bool" where
  "nullish JUndef = True"
| "nullish JNull = True"
| "nullish v = False"

text \<open>\<^verbatim>\<open>v.p\<close>: a TypeError on \<^verbatim>\<open>null\<close> and \<^verbatim>\<open>undefined\<close>, the own property of an object,
  \<^verbatim>\<open>undefined\<close> otherwise.\<close>

fun js_prop :: "jsval \<Rightarrow> string \<Rightarrow> js_error + jsval" where
  "js_prop JUndef p = Inl (TypeError (''Cannot read properties of undefined (reading '' @ p @ '')''))"
| "js_prop JNull p = Inl (TypeError (''Cannot read properties of null (reading '' @ p @ '')''))"
| "js_prop (JObj kvs) p = Inr (case map_of kvs p of Some v \<Rightarrow> v | None \<Rightarrow> JUndef)"
| "js_prop v p = Inr JUndef"

text \<open>\<^verbatim>\<open>v?.p\<close>\<close>

definition js_opt_prop :: "jsval \<Rightarrow> string \<Rightarrow> jsval" where
  "js_opt_prop v p = (case js_prop v p of Inl e \<Rightarrow> JUndef | Inr x \<Rightarrow> x)"

text \<open>Decimal digits of a number, as \<^verbatim>\<open>String(n)\<close> prints an integer.\<close>

definition digit_char :: "nat \<Rightarrow> char" where
  "digit_char d = ''0123456789'' ! d"

fun decimal :: "nat \<Rightarrow> string" where
  "decimal n = (if 10 \<le> n then decimal (n div 10) @ [digit_char (n mod 10)] else [digit_char n])"

definition decimal_int :: "int \<Rightarrow> string" where
  "decimal_int i = (if 0 \<le> i then decimal (nat i) else CHR ''-'' # decimal (nat (- i)))"

fun join :: "string \<Rightarrow> string list \<Rightarrow> string" where
  "join sep [] = []"
| "join sep [x] = x"
| "join sep (x # y # ys) = x @ sep @ join sep (y # ys)"

text \<open>The string conversion of template literals, of \<^verbatim>\<open>+\<close> and of \<^verbatim>\<open>Array.prototype.join\<close>.\<close>

fun js_to_string :: "jsval \<Rightarrow> string" where
  "js_to_string JUndef = ''undefined''"
| "js_to_string JNull = ''null''"
| "js_to_string (JBool b) = (if b then ''true'' else ''false'')"
| "js_to_string (JNum n) = decimal_int n"
| "js_to_string (JStr s) = s"
| "js_to_string (JArr xs) = join '','' (map (\<lambda>x. if nullish x then [] else js_to_string x) xs)"
| "js_to_string (JObj kvs) = ''[object Object]''"

definition js_join :: "string \<Rightarrow> jsval list \<Rightarrow> string" where
  "js_join sep xs = join sep (map (\<lambda>x. if nullish x then [] else js_to_string x) xs)"

text \<open>The message of \<^verbatim>\<open>new Error(v)\<close>: empty when \<open>v\<close> is \<^verbatim>\<open>undefined\<close>.\<close>

definition new_Error :: "jsval \<Rightarrow> js_error" where
  "new_Error v = Error (if v = JUndef then [] else js_to_string v)"

definition hex_digit :: "nat \<Rightarrow> char" where
  "hex_digit n = ''0123456789abcdef'' ! n"

definition json_escape_char :: "char \<Rightarrow> string" where
  "json_escape_char c =
     (if c = CHR 0x22 then [CHR 0x5C, CHR 0x22]
      else if c = CHR 0x5C then [CHR 0x5C, CHR 0x5C]
      else if c = CHR 0x08 then [CHR 0x5C, CHR ''b'']
      else if c = CHR 0x09 then [CHR 0x5C, CHR ''t'']
      else if c = CHR 0x0A then [CHR 0x5C, CHR ''n'']
      else if c = CHR 0x0C then [CHR 0x5C, CHR ''f'']
      else if c = CHR 0x0D then [CHR 0x5C, CHR ''r'']
      else if (of_char c :: nat) < 32
        then [CHR 0x5C, CHR ''u'', CHR ''0'', CHR ''0'',
              hex_digit (of_char c div 16), hex_digit (of_char c mod 16)]
      else [c])"

definition json_quote :: "string \<Rightarrow> string" where
  "json_quote s = [CHR 0x22] @ concat (map json_escape_char s) @ [CHR 0x22]"

text \<open>\<^verbatim>\<open>JSON.stringify(v)\<close>; \<open>None\<close> is its result \<^verbatim>\<open>undefined\<close>.\<close>

fun JSON_stringify :: "jsval \<Rightarrow> string option" where
  "JSON_stringify JUndef = None"
| "JSON_stringify JNull = Some ''null''"
| "JSON_stringify (JBool b) = Some (if b then ''true'' else ''false'')"
| "JSON_stringify (JNum n) = Some (decimal_int n)"
| "JSON_stringify (JStr s) = Some (json_quote s)"
| "JSON_stringify (JArr xs) =
     Some (''['' @ join '','' (map (\<lambda>x. case JSON_stringify x of None \<Rightarrow> ''null'' | Some t \<Rightarrow> t) xs)
           @ '']'')"
| "JSON_stringify (JObj kvs) =
     Some (''{'' @ join '','' (concat (map (\<lambda>(k, v). case JSON_stringify v of None \<Rightarrow> []
                                                | Some t \<Rightarrow> [json_quote k @ '':'' @ t]) kvs))
           @ ''}'')"

definition stringify_val :: "jsval \<Rightarrow> jsval" where
  "stringify_val v = (case JSON_stringify v of None \<Rightarrow> JUndef | Some s \<Rightarrow> JStr s)"

text \<open>\<^verbatim>\<open>s.startsWith(p)\<close>, \<^verbatim>\<open>s.includes(p)\<close> and \<^verbatim>\<open>s.replace(p, r)\<close> with a string pattern:
  the first occurrence only, with the replacement patterns \<^verbatim>\<open>$$\<close>, \<^verbatim>\<open>$&\<close>, \<^verbatim>\<open>$`\<close> and
  \<^verbatim>\<open>$'\<close> expanded.\<close>

fun starts_with :: "string \<Rightarrow> string \<Rightarrow> bool" where
  "starts_with s [] = True"
| "starts_with [] (p # ps) = False"
| "starts_with (c # cs) (p # ps) = (c = p \<and> starts_with cs ps)"

fun str_includes :: "string \<Rightarrow> string \<Rightarrow> bool" where
  "str_includes [] p = (p = [])"
| "str_includes (c # cs) p = (starts_with (c # cs) p \<or> str_includes cs p)"

fun split_first :: "string \<Rightarrow> string \<Rightarrow> (string \<times> string) option" where
  "split_first [] p = (if p = [] then Some ([], []) else None)"
| "split_first (c # cs) p =
     (if starts_with (c # cs) p then Some ([], drop (length p) (c # cs))
      else map_option (\<lambda>(pre, post). (c # pre, post)) (split_first cs p))"

fun expand_replacement :: "string \<Rightarrow> string \<Rightarrow> string \<Rightarrow> string \<Rightarrow> string" where
  "expand_replacement [] matched pre post = []"
| "expand_replacement [c] matched pre post = [c]"
| "expand_replacement (c # d # r) matched pre post =
     (if c = CHR ''$'' \<and> d = CHR ''$'' then CHR ''$'' # expand_replacement r matched pre post
      else if c = CHR ''$'' \<and> d = CHR ''&'' then matched @ expand_replacement r matched pre post
      else if c = CHR ''$'' \<and> d = CHR 0x60 then pre @ expand_replacement r matched pre post
      else if c = CHR ''$'' \<and> d = CHR 0x27 then post @ expand_replacement r matched pre post
      else c # expand_replacement (d # r) matched pre post)"

definition js_replace :: "string \<Rightarrow> string \<Rightarrow> string \<Rightarrow> string" where
  "js_replace s p r =
     (case split_first s p of
        None \<Rightarrow> s
      | Some (pre, post) \<Rightarrow> pre @ expand_replacement r p pre post @ post)"

section \<open>The data model of \<^verbatim>\<open>types.ts\<close>\<close>

datatype Provider = Groq | OpenRouter | OpenAI | Cerebras | Gemini | XAI | Custom1 | Custom2

fun provider_id :: "Provider \<Rightarrow> string" where
  "provider_id Groq = ''groq''"
| "provider_id OpenRouter = ''openrouter''"
| "provider_id OpenAI = ''openai''"
| "provider_id Cerebras = ''cerebras''"
| "provider_id Gemini = ''gemini''"
| "provider_id XAI = ''xai''"
| "provider_id Custom1 = ''custom1''"
| "provider_id Custom2 = ''custom2''"

datatype Role = User | Model | System | Tool | Assistant

record Attachment =
  att_name :: string
  att_type :: string
  att_data :: string

record MCPTool =
  tool_name :: string
  tool_description :: "string option"
  inputSchema :: jsval

datatype ServerStatus = Idle | Loading | Connected | Failed

record MCPServer =
  srv_id :: string
  srv_url :: string
  srv_transport :: string
  srv_authType :: string
  srv_authToken :: string
  srv_status :: ServerStatus
  srv_errorMessage :: string
  srv_tools :: "MCPTool list"
  srv_enabledTools :: "string list"

text \<open>
  The chat response of a provider, after JSON decoding, read under the two wire shapes
  that the source handles: \<^verbatim>\<open>choices[0].message\<close> with \<^verbatim>\<open>content\<close> and an optional
  \<^verbatim>\<open>tool_calls\<close> array, and \<^verbatim>\<open>candidates[0].content.parts\<close> with text parts and
  function-call parts. Only the fields that the source reads are kept; an absent or
  \<^verbatim>\<open>null\<close> field is \<open>None\<close>. An image of \<^verbatim>\<open>choices[0].images\<close> is its
  \<^verbatim>\<open>image_url.url\<close>. A success body that is JSON is taken to have this shape.
\<close>

record tool_call =
  tc_id :: string
  tc_type :: string
  fn_name :: string
  fn_arguments :: "string option"

record chat_message =
  cm_content :: "string option"
  cm_tool_calls :: "tool_call list option"

record choice =
  ch_message :: "chat_message option"
  ch_images :: "string option list option"

record usage_counts =
  prompt_tokens :: "nat option"
  input_tokens :: "nat option"
  completion_tokens :: "nat option"
  output_tokens :: "nat option"
  total_tokens :: "nat option"

record function_call =
  fc_name :: string
  fc_args :: jsval

record gemini_part =
  part_text :: "string option"
  part_functionCall :: "function_call option"

record llm_data =
  d_id :: "string option"
  d_choices :: "choice list option"
  d_candidates :: "gemini_part list option list option"
  d_usage :: "usage_counts option"

record Usage =
  u_input :: nat
  u_output :: nat
  u_total :: nat

record RawDebug =
  dbg_requestId :: string
  dbg_provider :: string
  dbg_model :: string
  dbg_requestPayload :: jsval
  dbg_responsePayload :: llm_data

record Message =
  msg_id :: string
  msg_role :: Role
  msg_content :: "string option"
  msg_timestamp :: nat
  msg_attachments :: "Attachment list option"
  msg_toolCalls :: "jsval list option"
  msg_tool_call_id :: "string option"
  msg_name :: "string option"
  msg_usage :: "Usage option"
  msg_rawDebug :: "RawDebug option"

text \<open>The fields of \<^verbatim>\<open>AppSettings\<close> that the service reads.\<close>

record AppSettings =
  groqKey :: string
  groqModel :: string
  openRouterKey :: string
  openRouterModel :: string
  openaiKey :: string
  openaiModel :: string
  cerebrasKey :: string
  cerebrasModel :: string
  geminiKey :: string
  geminiModel :: string
  xaiKey :: string
  xaiModel :: string
  custom1Key :: string
  custom1Url :: string
  custom1Model :: string
  custom2Key :: string
  custom2Url :: string
  custom2Model :: string
  systemPrompt :: string
  activeProvider :: Provider
  mcpServers :: "MCPServer list"

section \<open>The environment\<close>

text \<open>
  The service talks to the network through \<^verbatim>\<open>fetch\<close>, reads the clock through
  \<^verbatim>\<open>Date.now()\<close> and asks the user through the approval callback. Each such step is
  recorded as an event; what the environment answers may depend on every event so far.
  A request carries the value handed to \<^verbatim>\<open>JSON.stringify\<close> as its body. A response
  carries its status, its body as text, the body decoded as JSON (\<open>None\<close> when
  \<^verbatim>\<open>response.json()\<close> rejects) and the body decoded as a chat response.
  The approval callback resolves to a boolean; \<^verbatim>\<open>JSON.parse\<close> is the engine's parser.
\<close>

record http_request =
  h_method :: string
  h_url :: string
  h_headers :: "(string \<times> string) list"
  h_body :: "jsval option"

record http_response =
  status :: nat
  body_text :: string
  body_json :: "jsval option"
  body_chat :: "llm_data option"

datatype fetch_result = Rejected js_error | Responded http_response

datatype event =
    ProviderCall http_request
  | ToolServerCall http_request
  | ModelListCall http_request
  | ApprovalAsked string jsval
  | DateNow

record env =
  fetch :: "event list \<Rightarrow> http_request \<Rightarrow> fetch_result"
  clock :: "event list \<Rightarrow> nat"
  json_parse :: "string \<Rightarrow> jsval option"
  origin :: string

type_synonym approval = "event list \<Rightarrow> string \<Rightarrow> jsval \<Rightarrow> bool"

definition ok :: "http_response \<Rightarrow> bool" where
  "ok r = (200 \<le> status r \<and> status r \<le> 299)"

definition Date_now :: "env \<Rightarrow> event list \<Rightarrow> nat \<times> event list" where
  "Date_now E tr = (clock E tr, tr @ [DateNow])"

fun is_ProviderCall :: "event \<Rightarrow> bool" where
  "is_ProviderCall (ProviderCall req) = True"
| "is_ProviderCall e = False"

text \<open>A fetch that fails in transport, answers with a failure status, or answers with a
  body that is not JSON.\<close>

definition failed :: "fetch_result \<Rightarrow> bool" where
  "failed res = (case res of Rejected e \<Rightarrow> True
                 | Responded r \<Rightarrow> \<not> ok r \<or> body_json r = None)"


section \<open>Provider endpoints and fallback models\<close>

fun chat_endpoint :: "Provider \<Rightarrow> string" where
  "chat_endpoint Groq = ''https://api.groq.com/openai/v1/chat/completions''"
| "chat_endpoint OpenRouter = ''https://openrouter.ai/api/v1/chat/completions''"
| "chat_endpoint OpenAI = ''https://api.openai.com/v1/chat/completions''"
| "chat_endpoint Cerebras = ''https://api.cerebras.ai/v1/chat/completions''"
| "chat_endpoint Gemini =
     ''https://generativelanguage.googleapis.com/v1beta/models/{model}:generateContent''"
| "chat_endpoint XAI = ''https://api.x.ai/v1/chat/completions''"
| "chat_endpoint Custom1 = []"
| "chat_endpoint Custom2 = []"

fun models_endpoint :: "Provider \<Rightarrow> string" where
  "models_endpoint Groq = ''https://api.groq.com/openai/v1/models''"
| "models_endpoint OpenRouter = ''https://openrouter.ai/api/v1/models''"
| "models_endpoint OpenAI = ''https://api.openai.com/v1/models''"
| "models_endpoint Cerebras = ''https://api.cerebras.ai/v1/models''"
| "models_endpoint Gemini = ''https://generativelanguage.googleapis.com/v1beta/models''"
| "models_endpoint XAI = ''https://api.x.ai/v1/models''"
| "models_endpoint Custom1 = []"
| "models_endpoint Custom2 = []"

fun FALLBACK_MODELS :: "Provider \<Rightarrow> string list option" where
  "FALLBACK_MODELS OpenAI =
     Some [''gpt-4o'', ''gpt-4o-mini'', ''gpt-4-turbo'', ''gpt-3.5-turbo'', ''o1-preview'', ''o1-mini'']"
| "FALLBACK_MODELS Gemini =
     Some [''gemini-2.0-flash-exp'', ''gemini-1.5-flash'', ''gemini-1.5-pro'', ''gemini-1.0-pro'']"
| "FALLBACK_MODELS Custom1 = Some []"
| "FALLBACK_MODELS Custom2 = Some []"
| "FALLBACK_MODELS p = None"

text \<open>\<^verbatim>\<open>FALLBACK_MODELS[provider] || []\<close>\<close>

definition fallback :: "Provider \<Rightarrow> jsval list" where
  "fallback p = (case FALLBACK_MODELS p of Some ms \<Rightarrow> map JStr ms | None \<Rightarrow> [])"

section \<open>\<^verbatim>\<open>executeMCPToolCall\<close>\<close>

text \<open>
  The first argument of \<^verbatim>\<open>executeMCPToolCall\<close> is what \<^verbatim>\<open>toolMap[fnName]\<close> holds. The
  map is a plain object, so the value is a server, or some other truthy value that the
  lookup finds on the prototype chain; such a value has no \<^verbatim>\<open>url\<close> and no
  \<^verbatim>\<open>authToken\<close>.
\<close>

datatype toolmap_value = AServer MCPServer | NotAServer

fun url_of :: "toolmap_value \<Rightarrow> jsval" where
  "url_of (AServer s) = JStr (srv_url s)"
| "url_of NotAServer = JUndef"

fun authToken_of :: "toolmap_value \<Rightarrow> jsval" where
  "authToken_of (AServer s) = JStr (srv_authToken s)"
| "authToken_of NotAServer = JUndef"

text \<open>The part of \<^verbatim>\<open>executeMCPToolCall\<close> after \<^verbatim>\<open>const data = await response.json()\<close>.\<close>

definition mcp_part_text :: "jsval \<Rightarrow> js_error + jsval" where
  "mcp_part_text c =
     bindE (js_prop c ''text'') (\<lambda>t. Inr (if truthy t then t else stringify_val c))"

definition mcp_result :: "jsval \<Rightarrow> js_error + jsval" where
  "mcp_result data =
     bindE (js_prop data ''error'') (\<lambda>err.
       if truthy err then bindE (js_prop err ''message'') (\<lambda>m. Inl (new_Error m))
       else bindE (js_prop data ''result'') (\<lambda>result.
         bindE (if truthy result then js_prop result ''content'' else Inr result) (\<lambda>content.
           if truthy content then
             (case content of
                JArr cs \<Rightarrow> bindE (mapE mcp_part_text cs) (\<lambda>textParts.
                             Inr (JStr (js_join [CHR 0x0A] textParts)))
              | _ \<Rightarrow> Inl (TypeError ''data.result.content.map is not a function''))
           else Inr (stringify_val (if truthy result then result else data)))))"

text \<open>The request of \<^verbatim>\<open>executeMCPToolCall\<close>; its \<^verbatim>\<open>id\<close> is \<^verbatim>\<open>Date.now()\<close>, read as \<open>now\<close>.\<close>

definition tools_call_request :: "toolmap_value \<Rightarrow> string \<Rightarrow> jsval \<Rightarrow> nat \<Rightarrow> http_request" where
  "tools_call_request server toolName args now =
     (let rpcUrl = url_of server;
          headers = [(''Content-Type'', ''application/json'')]
            @ (if truthy (authToken_of server)
               then [(''Authorization'', ''Bearer '' @ js_to_string (authToken_of server))] else []);
          payload = JObj [(''jsonrpc'', JStr ''2.0''), (''id'', JNum (int now)),
                          (''method'', JStr ''tools/call''),
                          (''params'', JObj [(''name'', JStr toolName), (''arguments'', args)])]
      in \<lparr>h_method = ''POST'', h_url = js_to_string rpcUrl, h_headers = headers,
           h_body = Some payload\<rparr>)"

text \<open>The part of \<^verbatim>\<open>executeMCPToolCall\<close> after \<^verbatim>\<open>await fetch\<close>.\<close>

definition tools_call_result :: "fetch_result \<Rightarrow> js_error + jsval" where
  "tools_call_result res =
     (case res of
        Rejected e \<Rightarrow> Inl e
      | Responded response \<Rightarrow>
          if \<not> ok response
          then Inl (Error (''MCP Server Error ('' @ decimal (status response) @ ''): ''
                           @ body_text response))
          else (case body_json response of
                  None \<Rightarrow> Inl (SyntaxError ''Unexpected token in JSON'')
                | Some data \<Rightarrow> mcp_result data))"

definition executeMCPToolCall ::
  "env \<Rightarrow> toolmap_value \<Rightarrow> string \<Rightarrow> jsval \<Rightarrow> event list \<Rightarrow> (js_error + jsval) \<times> event list" where
  "executeMCPToolCall E server toolName args tr =
     (let (now, tr1) = Date_now E tr;
          req = tools_call_request server toolName args now
      in (tools_call_result (fetch E tr1 req), tr1 @ [ToolServerCall req]))"

section \<open>\<^verbatim>\<open>fetchModels\<close>\<close>

definition supports_generateContent :: "jsval \<Rightarrow> js_error + bool" where
  "supports_generateContent m =
     bindE (js_prop m ''supportedGenerationMethods'') (\<lambda>g.
       if nullish g then Inr False
       else (case g of
               JArr xs \<Rightarrow> Inr (JStr ''generateContent'' \<in> set xs)
             | JStr s \<Rightarrow> Inr (str_includes s ''generateContent'')
             | _ \<Rightarrow> Inl (TypeError ''m.supportedGenerationMethods.includes is not a function'')))"

definition model_name :: "jsval \<Rightarrow> js_error + jsval" where
  "model_name m =
     bindE (js_prop m ''name'') (\<lambda>n.
       case n of
         JStr s \<Rightarrow> Inr (JStr (js_replace s ''models/'' []))
       | _ \<Rightarrow> Inl (TypeError ''m.name.replace is not a function''))"

text \<open>The two \<^verbatim>\<open>return\<close> statements after \<^verbatim>\<open>const data = await response.json()\<close>.\<close>

definition models_of_body :: "Provider \<Rightarrow> jsval \<Rightarrow> js_error + jsval list" where
  "models_of_body provider data =
     (if provider = Gemini then
        bindE (js_prop data ''models'') (\<lambda>ms.
          if nullish ms then Inr (fallback provider)
          else (case ms of
                  JArr xs \<Rightarrow> bindE (filterE supports_generateContent xs) (mapE model_name)
                | _ \<Rightarrow> Inl (TypeError ''data.models.filter is not a function'')))
      else
        bindE (js_prop data ''data'') (\<lambda>d.
          if nullish d then Inr []
          else (case d of
                  JArr xs \<Rightarrow> mapE (\<lambda>m. js_prop m ''id'') xs
                | _ \<Rightarrow> Inl (TypeError ''data.data.map is not a function''))))"

text \<open>The body of the \<^verbatim>\<open>try\<close> block.\<close>

definition fetchModels_try ::
  "env \<Rightarrow> Provider \<Rightarrow> string \<Rightarrow> string option \<Rightarrow> event list
     \<Rightarrow> (js_error + jsval list) \<times> event list" where
  "fetchModels_try E provider key customUrl tr =
     (let endpoint =
            (case customUrl of
               Some u \<Rightarrow> if (provider = Custom1 \<or> provider = Custom2) \<and> u \<noteq> []
                         then u @ ''/models'' else models_endpoint provider
             | None \<Rightarrow> models_endpoint provider)
      in if endpoint = [] then (Inr (fallback provider), tr)
         else
           let headers =
                 (if provider = Gemini then []
                  else [(''Authorization'', ''Bearer '' @ key)]
                       @ (if provider = OpenRouter then [(''HTTP-Referer'', origin E)] else []));
               url = (if provider = Gemini then endpoint @ ''?key='' @ key else endpoint);
               req = \<lparr>h_method = ''GET'', h_url = url, h_headers = headers, h_body = None\<rparr>;
               tr1 = tr @ [ModelListCall req]
           in case fetch E tr req of
                Rejected e \<Rightarrow> (Inl e, tr1)
              | Responded response \<Rightarrow>
                  if \<not> ok response then (Inr (fallback provider), tr1)
                  else (case body_json response of
                          None \<Rightarrow> (Inl (SyntaxError ''Unexpected token in JSON''), tr1)
                        | Some data \<Rightarrow> (models_of_body provider data, tr1)))"

text \<open>The whole function: the \<^verbatim>\<open>catch\<close> block returns the fallback list.\<close>

definition fetchModels ::
  "env \<Rightarrow> Provider \<Rightarrow> string \<Rightarrow> string option \<Rightarrow> event list
     \<Rightarrow> (js_error + jsval list) \<times> event list" where
  "fetchModels E provider key customUrl tr =
     (case fetchModels_try E provider key customUrl tr of
        (Inl e, tr') \<Rightarrow> (Inr (fallback provider), tr')
      | (Inr models, tr') \<Rightarrow> (Inr models, tr'))"


section \<open>Request building and the provider call\<close>

text \<open>
  The messages and tool definitions that \<^verbatim>\<open>sendMessage\<close> builds are object literals;
  an object is its property list. A property holding \<^verbatim>\<open>undefined\<close> is kept (and dropped
  by \<^verbatim>\<open>JSON.stringify\<close>).
\<close>

type_synonym js_object = "(string \<times> jsval) list"

definition get :: "js_object \<Rightarrow> string \<Rightarrow> jsval" where
  "get obj p = (case map_of obj p of Some v \<Rightarrow> v | None \<Rightarrow> JUndef)"

text \<open>The regular expression \<^verbatim>\<open>/^data:([^;]+);base64,(.+)$/\<close>: the two groups of a match.
  The dot matches no line terminator (LF, CR, U+2028, U+2029).\<close>

fun has_line_terminator :: "string \<Rightarrow> bool" where
  "has_line_terminator [] = False"
| "has_line_terminator (c # cs) =
     (c = CHR 0x0A \<or> c = CHR 0x0D
      \<or> starts_with (c # cs) [CHR 0xE2, CHR 0x80, CHR 0xA8]
      \<or> starts_with (c # cs) [CHR 0xE2, CHR 0x80, CHR 0xA9]
      \<or> has_line_terminator cs)"

definition match_data_url :: "string \<Rightarrow> (string \<times> string) option" where
  "match_data_url url =
     (if \<not> starts_with url ''data:'' then None
      else let rest = drop 5 url;
               mimeType = takeWhile (\<lambda>c. c \<noteq> CHR '';'') rest;
               tail = dropWhile (\<lambda>c. c \<noteq> CHR '';'') rest;
               payload = drop 8 tail
           in if mimeType \<noteq> [] \<and> starts_with tail '';base64,'' \<and> payload \<noteq> []
                 \<and> \<not> has_line_terminator payload
              then Some (mimeType, payload) else None)"

text \<open>What one step of \<^verbatim>\<open>m.content.forEach\<close> pushes to \<^verbatim>\<open>parts\<close>.\<close>

definition gemini_parts_of :: "jsval \<Rightarrow> js_error + jsval list" where
  "gemini_parts_of c =
     bindE (js_prop c ''type'') (\<lambda>ty.
       if ty = JStr ''text'' then Inr [JObj [(''text'', js_opt_prop c ''text'')]]
       else if ty = JStr ''image_url'' then
         (let u = js_opt_prop (js_opt_prop c ''image_url'') ''url'';
              url = (if truthy u then u else JStr [])
          in case url of
               JStr s \<Rightarrow>
                 (case match_data_url s of
                    Some (mimeType, payload) \<Rightarrow>
                      if starts_with mimeType ''image/''
                      then Inr [JObj [(''inlineData'',
                                  JObj [(''mimeType'', JStr mimeType), (''data'', JStr payload)])]]
                      else Inr []
                  | None \<Rightarrow> Inr [])
             | _ \<Rightarrow> Inl (TypeError ''url.match is not a function''))
       else Inr [])"

definition gemini_content :: "js_object \<Rightarrow> js_error + jsval" where
  "gemini_content m =
     bindE (case get m ''content'' of
              JStr s \<Rightarrow> Inr [JObj [(''text'', JStr s)]]
            | JArr cs \<Rightarrow> bindE (mapE gemini_parts_of cs) (\<lambda>pss. Inr (concat pss))
            | _ \<Rightarrow> Inr [])
       (\<lambda>parts. Inr (JObj [(''role'', JStr (if get m ''role'' = JStr ''assistant''
                                              then ''model'' else ''user'')),
                             (''parts'', JArr parts)]))"

definition buildGeminiRequest :: "js_object list \<Rightarrow> js_object list \<Rightarrow> js_error + jsval" where
  "buildGeminiRequest apiMessages tools =
     bindE (mapE gemini_content (filter (\<lambda>m. get m ''role'' \<noteq> JStr ''system'') apiMessages))
       (\<lambda>contents.
          let systemInstruction =
                (case find (\<lambda>m. get m ''role'' = JStr ''system'') apiMessages of
                   None \<Rightarrow> JUndef | Some m \<Rightarrow> get m ''content'')
          in Inr (JObj ([(''contents'', JArr contents)]
               @ (if truthy systemInstruction
                  then [(''systemInstruction'',
                         JObj [(''parts'', JArr [JObj [(''text'', systemInstruction)]])])]
                  else [])
               @ (if length tools > 0
                  then [(''tools'', JArr [JObj [(''functionDeclarations'',
                                                 JArr (map (\<lambda>t. get t ''function'') tools))]])]
                  else []))))"

definition openai_payload :: "string \<Rightarrow> js_object list \<Rightarrow> js_object list \<Rightarrow> jsval" where
  "openai_payload model apiMessages tools =
     JObj [(''model'', JStr model),
           (''messages'', JArr (map JObj apiMessages)),
           (''tools'', if length tools > 0 then JArr (map JObj tools) else JUndef),
           (''tool_choice'', if length tools > 0 then JStr ''auto'' else JUndef)]"

text \<open>The message of the error thrown on a failure status:
  \<^verbatim>\<open>err.error?.message || err.message || "API Error"\<close>.\<close>

definition api_error_message :: "jsval \<Rightarrow> js_error + jsval" where
  "api_error_message err =
     bindE (js_prop err ''error'') (\<lambda>e.
       let m1 = js_opt_prop e ''message''
       in if truthy m1 then Inr m1
          else bindE (js_prop err ''message'') (\<lambda>m2.
                 Inr (if truthy m2 then m2 else JStr ''API Error'')))"

definition chat_url :: "Provider \<Rightarrow> string \<Rightarrow> string \<Rightarrow> AppSettings \<Rightarrow> string" where
  "chat_url provider key model settings =
     (if provider = Gemini
        then js_replace (chat_endpoint provider) ''{model}'' model @ ''?key='' @ key
      else if provider = Custom1 then custom1Url settings @ ''/chat/completions''
      else if provider = Custom2 then custom2Url settings @ ''/chat/completions''
      else chat_endpoint provider)"

definition callLLMProvider ::
  "env \<Rightarrow> Provider \<Rightarrow> string \<Rightarrow> string \<Rightarrow> js_object list \<Rightarrow> js_object list \<Rightarrow> AppSettings
     \<Rightarrow> event list \<Rightarrow> (js_error + llm_data \<times> jsval) \<times> event list" where
  "callLLMProvider E provider key model apiMessages tools settings tr =
     (let endpoint = chat_url provider key model settings;
          headers =
            [(''Content-Type'', ''application/json'')]
            @ (if provider = Gemini then [] else [(''Authorization'', ''Bearer '' @ key)])
            @ (if provider = OpenRouter then [(''HTTP-Referer'', origin E)] else [])
      in case (if provider = Gemini then buildGeminiRequest apiMessages tools
               else Inr (openai_payload model apiMessages tools)) of
           Inl e \<Rightarrow> (Inl e, tr)
         | Inr requestPayload \<Rightarrow>
             let req = \<lparr>h_method = ''POST'', h_url = endpoint, h_headers = headers,
                        h_body = Some requestPayload\<rparr>;
                 tr1 = tr @ [ProviderCall req]
             in case fetch E tr req of
                  Rejected e \<Rightarrow> (Inl e, tr1)
                | Responded response \<Rightarrow>
                    if \<not> ok response then
                      (case body_json response of
                         None \<Rightarrow> (Inl (SyntaxError ''Unexpected token in JSON''), tr1)
                       | Some err \<Rightarrow>
                           (case api_error_message err of
                              Inl e \<Rightarrow> (Inl e, tr1)
                            | Inr m \<Rightarrow> (Inl (new_Error m), tr1)))
                    else
                      (case body_chat response of
                         None \<Rightarrow> (Inl (SyntaxError ''Unexpected token in JSON''), tr1)
                       | Some responseData \<Rightarrow> (Inr (responseData, requestPayload), tr1)))"

section \<open>Response parsing\<close>

text \<open>One step of \<^verbatim>\<open>functionCalls.map\<close> in \<^verbatim>\<open>parseGeminiResponse\<close>: the id is
  \<^verbatim>\<open>`gemini-${Date.now()}`\<close>.\<close>

primrec gemini_tool_calls ::
  "env \<Rightarrow> function_call list \<Rightarrow> event list \<Rightarrow> tool_call list \<times> event list" where
  "gemini_tool_calls E [] = (\<lambda>tr. ([], tr))"
| "gemini_tool_calls E (fc # fcs) = (\<lambda>tr.
     let (now, tr1) = Date_now E tr;
         toolCall = \<lparr>tc_id = ''gemini-'' @ decimal now, tc_type = ''function'',
                     fn_name = fc_name fc, fn_arguments = JSON_stringify (fc_args fc)\<rparr>;
         (rest, tr2) = gemini_tool_calls E fcs tr1
     in (toolCall # rest, tr2))"

definition parseGeminiResponse ::
  "env \<Rightarrow> llm_data \<Rightarrow> event list \<Rightarrow> (string \<times> tool_call list option) \<times> event list" where
  "parseGeminiResponse E data tr =
     (let candidate = (case d_candidates data of Some (c # cs) \<Rightarrow> c | _ \<Rightarrow> None);
          parts = (case candidate of Some ps \<Rightarrow> ps | None \<Rightarrow> []);
          textParts = List.map_filter
                        (\<lambda>p. case part_text p of Some t \<Rightarrow> if t \<noteq> [] then Some t else None
                                                | None \<Rightarrow> None) parts;
          functionCalls = List.map_filter part_functionCall parts
      in if length functionCalls > 0
         then (let (toolCalls, tr1) = gemini_tool_calls E functionCalls tr
               in ((join [CHR 0x0A] textParts, Some toolCalls), tr1))
         else ((join [CHR 0x0A] textParts, None), tr))"


section \<open>\<^verbatim>\<open>sendMessage\<close>\<close>

subsection \<open>The tool map\<close>

text \<open>
  \<^verbatim>\<open>toolMap\<close> is the object literal \<^verbatim>\<open>{}\<close> used as a dictionary. The assignment
  \<^verbatim>\<open>toolMap[t.name] = server\<close> creates an own property, except that the name
  \<^verbatim>\<open>__proto__\<close> makes the server the prototype of the map. The read
  \<^verbatim>\<open>toolMap[fnName]\<close> finds an own property, or else a property on the prototype chain:
  a field of a server that was made the prototype, or a member of \<^verbatim>\<open>Object.prototype\<close>.
  \<open>toolmap_get\<close> is \<open>None\<close> when the value read is falsy.
\<close>

record toolmap =
  tm_own :: "(string \<times> MCPServer) list"
  tm_proto :: "MCPServer option"

definition empty_toolmap :: toolmap where
  "empty_toolmap = \<lparr>tm_own = [], tm_proto = None\<rparr>"

definition toolmap_set :: "toolmap \<Rightarrow> string \<Rightarrow> MCPServer \<Rightarrow> toolmap" where
  "toolmap_set tm name server =
     (if name = ''__proto__'' then tm\<lparr>tm_proto := Some server\<rparr>
      else tm\<lparr>tm_own := (name, server) # tm_own tm\<rparr>)"

definition Object_prototype_members :: "string list" where
  "Object_prototype_members =
     [''constructor'', ''hasOwnProperty'', ''isPrototypeOf'', ''propertyIsEnumerable'',
      ''toLocaleString'', ''toString'', ''valueOf'', ''__defineGetter__'',
      ''__defineSetter__'', ''__lookupGetter__'', ''__lookupSetter__'']"

definition server_field_truthy :: "MCPServer \<Rightarrow> string \<Rightarrow> bool" where
  "server_field_truthy s name =
     (name = ''id'' \<and> srv_id s \<noteq> [] \<or> name = ''url'' \<and> srv_url s \<noteq> []
      \<or> name = ''transport'' \<and> srv_transport s \<noteq> [] \<or> name = ''authType'' \<and> srv_authType s \<noteq> []
      \<or> name = ''authToken'' \<and> srv_authToken s \<noteq> [] \<or> name = ''status''
      \<or> name = ''errorMessage'' \<and> srv_errorMessage s \<noteq> []
      \<or> name = ''tools'' \<or> name = ''enabledTools'')"

definition toolmap_get :: "toolmap \<Rightarrow> string \<Rightarrow> toolmap_value option" where
  "toolmap_get tm name =
     (case map_of (tm_own tm) name of
        Some s \<Rightarrow> Some (AServer s)
      | None \<Rightarrow>
          if name = ''__proto__''
            then Some (case tm_proto tm of Some s \<Rightarrow> AServer s | None \<Rightarrow> NotAServer)
          else if (case tm_proto tm of Some s \<Rightarrow> server_field_truthy s name | None \<Rightarrow> False)
            then Some NotAServer
          else if name \<in> set Object_prototype_members then Some NotAServer
          else None)"

definition tool_def :: "MCPTool \<Rightarrow> js_object" where
  "tool_def t =
     [(''type'', JStr ''function''),
      (''function'', JObj [(''name'', JStr (tool_name t)),
                           (''description'', case tool_description t of
                                               Some d \<Rightarrow> JStr d | None \<Rightarrow> JUndef),
                           (''parameters'', inputSchema t)])]"

text \<open>\<^verbatim>\<open>settings.mcpServers.forEach\<close>: the state is \<^verbatim>\<open>toolMap\<close> and \<^verbatim>\<open>activeToolsDefs\<close>.\<close>

definition register_tool ::
  "MCPServer \<Rightarrow> MCPTool \<Rightarrow> toolmap \<times> js_object list \<Rightarrow> toolmap \<times> js_object list" where
  "register_tool server t acc =
     (toolmap_set (fst acc) (tool_name t) server, snd acc @ [tool_def t])"

definition register_server ::
  "MCPServer \<Rightarrow> toolmap \<times> js_object list \<Rightarrow> toolmap \<times> js_object list" where
  "register_server server acc =
     (if srv_status server = Connected
      then fold (register_tool server)
             (filter (\<lambda>t. tool_name t \<in> set (srv_enabledTools server)) (srv_tools server)) acc
      else acc)"

definition toolMap :: "AppSettings \<Rightarrow> toolmap" where
  "toolMap settings = fst (fold register_server (mcpServers settings) (empty_toolmap, []))"

definition activeToolsDefs :: "AppSettings \<Rightarrow> js_object list" where
  "activeToolsDefs settings = snd (fold register_server (mcpServers settings) (empty_toolmap, []))"

subsection \<open>Credentials and the system instruction\<close>

definition or_default :: "string \<Rightarrow> string \<Rightarrow> string" where
  "or_default s d = (if s \<noteq> [] then s else d)"

fun providerKeyMap :: "AppSettings \<Rightarrow> Provider \<Rightarrow> string \<times> string" where
  "providerKeyMap s Groq = (groqKey s, or_default (groqModel s) ''llama3-8b-8192'')"
| "providerKeyMap s OpenRouter =
     (openRouterKey s, or_default (openRouterModel s) ''openai/gpt-3.5-turbo'')"
| "providerKeyMap s OpenAI = (openaiKey s, or_default (openaiModel s) ''gpt-4o-mini'')"
| "providerKeyMap s Cerebras = (cerebrasKey s, or_default (cerebrasModel s) ''llama3.1-8b'')"
| "providerKeyMap s Gemini = (geminiKey s, or_default (geminiModel s) ''gemini-1.5-flash'')"
| "providerKeyMap s XAI = (xaiKey s, or_default (xaiModel s) ''grok-beta'')"
| "providerKeyMap s Custom1 = (custom1Key s, custom1Model s)"
| "providerKeyMap s Custom2 = (custom2Key s, custom2Model s)"

definition active_key :: "AppSettings \<Rightarrow> string" where
  "active_key settings = fst (providerKeyMap settings (activeProvider settings))"

definition active_model :: "AppSettings \<Rightarrow> string" where
  "active_model settings = snd (providerKeyMap settings (activeProvider settings))"

definition missing_key_message :: "Provider \<Rightarrow> string" where
  "missing_key_message p =
     ''La API Key para '' @ provider_id p @ '' no est'' @ [CHR 0xC3, CHR 0xA1] @ '' configurada.''"

definition default_system_prompt :: string where
  "default_system_prompt =
     ''Eres Nodemat AI. Responde en el idioma del usuario. Si usas herramientas, usa la informaci''
     @ [CHR 0xC3, CHR 0xB3]
     @ ''n que te devuelven para construir tu respuesta final.''"

definition tools_note :: string where
  "tools_note =
     [CHR 0x0A, CHR 0x0A] @ ''Tienes acceso a herramientas locales. '' @ [CHR 0xC3, CHR 0x9A]
     @ ''salas cuando sea necesario.''"

definition systemInstruction :: "AppSettings \<Rightarrow> string" where
  "systemInstruction settings =
     or_default (systemPrompt settings) default_system_prompt
     @ (if length (activeToolsDefs settings) > 0 then tools_note else [])"

subsection \<open>The message list sent to the provider\<close>

definition isNative :: "Attachment \<Rightarrow> bool" where
  "isNative att = starts_with (att_type att) ''image/''"

definition attachment_text :: "Attachment \<Rightarrow> string" where
  "attachment_text att =
     [CHR 0x0A, CHR 0x0A] @ ''--- Archivo Adjunto: '' @ att_name att @ '' ---'' @ [CHR 0x0A]
     @ att_data att @ [CHR 0x0A] @ ''-------------------''"

text \<open>\<^verbatim>\<open>contentArray\<close> after \<^verbatim>\<open>attachments.forEach\<close>: the text part, with every text
  attachment appended to it, then the image parts.\<close>

definition contentArray :: "string \<Rightarrow> Attachment list \<Rightarrow> jsval" where
  "contentArray text atts =
     JArr (JObj [(''type'', JStr ''text''),
                 (''text'', JStr (text @ concat (map attachment_text
                                     (filter (\<lambda>att. \<not> isNative att) atts))))]
           # map (\<lambda>att. JObj [(''type'', JStr ''image_url''),
                                (''image_url'', JObj [(''url'', JStr (att_data att))])])
               (filter isNative atts))"

definition opt_str :: "string option \<Rightarrow> jsval" where
  "opt_str x = (case x of Some s \<Rightarrow> JStr s | None \<Rightarrow> JUndef)"

definition content_val :: "string option \<Rightarrow> jsval" where
  "content_val x = (case x of Some s \<Rightarrow> JStr s | None \<Rightarrow> JNull)"

text \<open>One step of \<^verbatim>\<open>history.forEach\<close>: the messages pushed to \<^verbatim>\<open>apiMessages\<close>.\<close>

definition history_message :: "Message \<Rightarrow> js_object list" where
  "history_message m =
     (if msg_role m = Tool then
        [[(''role'', JStr ''tool''), (''tool_call_id'', opt_str (msg_tool_call_id m)),
          (''name'', opt_str (msg_name m)), (''content'', content_val (msg_content m))]]
      else if msg_role m = Model then
        [[(''role'', JStr ''assistant''), (''content'', content_val (msg_content m))]
         @ (case msg_toolCalls m of Some tcs \<Rightarrow> [(''tool_calls'', JArr tcs)] | None \<Rightarrow> [])]
      else if msg_role m = User then
        (case msg_attachments m of
           Some (a # as) \<Rightarrow>
             [[(''role'', JStr ''user''),
               (''content'', contentArray (case msg_content m of Some c \<Rightarrow> c | None \<Rightarrow> [])
                                          (a # as))]]
         | _ \<Rightarrow> [[(''role'', JStr ''user''), (''content'', content_val (msg_content m))]])
      else [])"

definition initial_apiMessages ::
  "AppSettings \<Rightarrow> Message list \<Rightarrow> string \<Rightarrow> Attachment list \<Rightarrow> js_object list" where
  "initial_apiMessages settings history currentMessage attachments =
     [[(''role'', JStr ''system''), (''content'', JStr (systemInstruction settings))]]
     @ concat (map history_message history)
     @ [[(''role'', JStr ''user''),
         (''content'', if length attachments > 0 then contentArray currentMessage attachments
                       else JStr currentMessage)]]"


subsection \<open>The agentic loop\<close>

definition js_of_tool_call :: "tool_call \<Rightarrow> jsval" where
  "js_of_tool_call tc =
     JObj [(''id'', JStr (tc_id tc)), (''type'', JStr (tc_type tc)),
           (''function'', JObj [(''name'', JStr (fn_name tc)),
                                (''arguments'', opt_str (fn_arguments tc))])]"

text \<open>The parsing of the response at the head of the loop body (lines 575 to 588).
  \<^verbatim>\<open>data.choices[0]\<close> and the two reads after it throw a TypeError on a missing value.\<close>

definition parse_response ::
  "env \<Rightarrow> Provider \<Rightarrow> llm_data \<Rightarrow> event list
     \<Rightarrow> (js_error + string \<times> tool_call list option) \<times> event list" where
  "parse_response E provider data tr =
     (if provider = Gemini
      then (let (parsed, tr1) = parseGeminiResponse E data tr in (Inr parsed, tr1))
      else (case d_choices data of
              None \<Rightarrow> (Inl (TypeError ''Cannot read properties of undefined (reading 0)''), tr)
            | Some [] \<Rightarrow>
                (Inl (TypeError ''Cannot read properties of undefined (reading message)''), tr)
            | Some (choice # cs) \<Rightarrow>
                (case ch_message choice of
                   None \<Rightarrow>
                     (Inl (TypeError ''Cannot read properties of undefined (reading content)''), tr)
                 | Some messageData \<Rightarrow>
                     (Inr (case cm_content messageData of Some c \<Rightarrow> c | None \<Rightarrow> [],
                           cm_tool_calls messageData), tr))))"

definition invalid_args :: jsval where
  "invalid_args = JObj [(''error'', JStr ''Invalid JSON args'')]"

definition denied_text :: string where
  "denied_text = ''User denied execution of this tool.''"

definition not_found_text :: string where
  "not_found_text = ''Error: Tool not found or server disconnected.''"

text \<open>The body of \<^verbatim>\<open>for (const toolCall of toolCalls)\<close>; the state is \<^verbatim>\<open>apiMessages\<close> and
  the events so far. \<^verbatim>\<open>JSON.parse\<close> converts its argument to a string first.\<close>

definition parsed_args :: "env \<Rightarrow> tool_call \<Rightarrow> jsval" where
  "parsed_args E toolCall =
     (case json_parse E (js_to_string (opt_str (fn_arguments toolCall))) of
        Some v \<Rightarrow> v | None \<Rightarrow> invalid_args)"

definition tool_message :: "tool_call \<Rightarrow> jsval \<Rightarrow> js_object" where
  "tool_message toolCall executionResult =
     [(''role'', JStr ''tool''), (''tool_call_id'', JStr (tc_id toolCall)),
      (''name'', JStr (fn_name toolCall)), (''content'', executionResult)]"

definition process_tool_call ::
  "env \<Rightarrow> approval \<Rightarrow> toolmap \<Rightarrow> tool_call \<Rightarrow> js_object list \<times> event list
     \<Rightarrow> js_object list \<times> event list" where
  "process_tool_call E onToolApproval tm toolCall st =
     (let apiMessages = fst st; tr = snd st;
          fnName = fn_name toolCall;
          args = parsed_args E toolCall;
          (executionResult, tr') =
            (case toolmap_get tm fnName of
               Some server \<Rightarrow>
                 let isApproved = onToolApproval tr fnName args;
                     tr1 = tr @ [ApprovalAsked fnName args]
                 in if isApproved
                    then (case executeMCPToolCall E server fnName args tr1 of
                            (Inr result, tr2) \<Rightarrow> (result, tr2)
                          | (Inl err, tr2) \<Rightarrow>
                              (JStr (''Error executing tool: '' @ err_message err), tr2))
                    else (JStr denied_text, tr1)
             | None \<Rightarrow> (JStr not_found_text, tr))
      in (apiMessages @ [tool_message toolCall executionResult], tr'))"

definition run_tool_calls ::
  "env \<Rightarrow> approval \<Rightarrow> toolmap \<Rightarrow> tool_call list \<Rightarrow> js_object list \<times> event list
     \<Rightarrow> js_object list \<times> event list" where
  "run_tool_calls E onToolApproval tm toolCalls st =
     fold (process_tool_call E onToolApproval tm) toolCalls st"

definition image_markdown :: "string option \<Rightarrow> string option" where
  "image_markdown img =
     (case img of
        Some url \<Rightarrow> if url \<noteq> [] then Some (''![Imagen Generada]('' @ url @ '')'') else None
      | None \<Rightarrow> None)"

definition finalContent :: "Provider \<Rightarrow> llm_data \<Rightarrow> string \<Rightarrow> string" where
  "finalContent provider data messageContent =
     (if provider = OpenRouter \<or> provider = OpenAI then
        (let choice = (case d_choices data of Some (c # cs) \<Rightarrow> Some c | _ \<Rightarrow> None);
             choiceImages = (case choice of Some c \<Rightarrow> ch_images c | None \<Rightarrow> None)
         in case choiceImages of
              Some (i # is) \<Rightarrow>
                (let imageParts = List.map_filter image_markdown (i # is)
                 in if length imageParts > 0
                    then (if messageContent \<noteq> []
                          then messageContent @ [CHR 0x0A, CHR 0x0A]
                               @ join [CHR 0x0A, CHR 0x0A] imageParts
                          else join [CHR 0x0A, CHR 0x0A] imageParts)
                    else messageContent)
            | _ \<Rightarrow> messageContent)
      else messageContent)"

text \<open>\<^verbatim>\<open>a || b\<close> on optional numbers.\<close>

definition num_or :: "nat option \<Rightarrow> nat \<Rightarrow> nat" where
  "num_or a b = (case a of Some n \<Rightarrow> if n \<noteq> 0 then n else b | None \<Rightarrow> b)"

definition usage_of :: "llm_data \<Rightarrow> Usage option" where
  "usage_of data =
     (case d_usage data of
        Some u \<Rightarrow> Some \<lparr>u_input = num_or (prompt_tokens u) (num_or (input_tokens u) 0),
                        u_output = num_or (completion_tokens u) (num_or (output_tokens u) 0),
                        u_total = num_or (total_tokens u) 0\<rparr>
      | None \<Rightarrow> None)"

text \<open>The object literal \<^verbatim>\<open>finalMsg\<close>; its three \<^verbatim>\<open>Date.now()\<close> in evaluation order.\<close>

definition finalMsg ::
  "env \<Rightarrow> Provider \<Rightarrow> string \<Rightarrow> llm_data \<Rightarrow> jsval \<Rightarrow> string \<Rightarrow> event list
     \<Rightarrow> Message \<times> event list" where
  "finalMsg E provider model data requestPayload content tr =
     (let (t1, tr1) = Date_now E tr;
          (t2, tr2) = Date_now E tr1;
          (requestId, tr3) =
            (case d_id data of
               Some i \<Rightarrow> if i \<noteq> [] then (i, tr2)
                         else (let (t3, tr3) = Date_now E tr2 in (''req-'' @ decimal t3, tr3))
             | None \<Rightarrow> (let (t3, tr3) = Date_now E tr2 in (''req-'' @ decimal t3, tr3)))
      in (\<lparr>msg_id = decimal t1, msg_role = Model, msg_content = Some content,
            msg_timestamp = t2, msg_attachments = None, msg_toolCalls = None,
            msg_tool_call_id = None, msg_name = None, msg_usage = usage_of data,
            msg_rawDebug = Some \<lparr>dbg_requestId = requestId, dbg_provider = provider_id provider,
                                   dbg_model = model, dbg_requestPayload = requestPayload,
                                   dbg_responsePayload = data\<rparr>\<rparr>, tr3))"

definition assistant_message :: "string \<Rightarrow> tool_call list \<Rightarrow> js_object" where
  "assistant_message messageContent toolCalls =
     [(''role'', JStr ''assistant''), (''content'', JStr messageContent),
      (''tool_calls'', JArr (map js_of_tool_call toolCalls))]"

text \<open>The body of the \<^verbatim>\<open>while\<close> loop after \<^verbatim>\<open>turns++\<close>. The result is the new
  \<^verbatim>\<open>keepGoing\<close>, \<^verbatim>\<open>apiMessages\<close> and \<^verbatim>\<open>newMessagesGenerated\<close>, or the error thrown.\<close>

definition turn_body ::
  "env \<Rightarrow> approval \<Rightarrow> AppSettings \<Rightarrow> js_object list \<Rightarrow> Message list \<Rightarrow> event list
     \<Rightarrow> (js_error + bool \<times> js_object list \<times> Message list) \<times> event list" where
  "turn_body E onToolApproval settings apiMessages newMessagesGenerated tr =
     (case callLLMProvider E (activeProvider settings) (active_key settings)
             (active_model settings) apiMessages (activeToolsDefs settings) settings tr of
        (Inl e, tr1) \<Rightarrow> (Inl e, tr1)
      | (Inr (data, requestPayload), tr1) \<Rightarrow>
          (case parse_response E (activeProvider settings) data tr1 of
             (Inl e, tr2) \<Rightarrow> (Inl e, tr2)
           | (Inr (messageContent, toolCalls), tr2) \<Rightarrow>
               (case toolCalls of
                  Some (tc # tcs) \<Rightarrow>
                    (let (apiMessages', tr3) =
                           run_tool_calls E onToolApproval (toolMap settings) (tc # tcs)
                             (apiMessages @ [assistant_message messageContent (tc # tcs)], tr2)
                     in (Inr (True, apiMessages', newMessagesGenerated), tr3))
                | _ \<Rightarrow>
                    (let (msg, tr3) =
                           finalMsg E (activeProvider settings) (active_model settings) data
                             requestPayload
                             (finalContent (activeProvider settings) data messageContent) tr2
                     in (Inr (False, apiMessages, newMessagesGenerated @ [msg]), tr3)))))"

function send_loop ::
  "env \<Rightarrow> approval \<Rightarrow> AppSettings \<Rightarrow> bool \<Rightarrow> nat \<Rightarrow> js_object list \<Rightarrow> Message list
     \<Rightarrow> event list \<Rightarrow> (js_error + nat \<times> js_object list \<times> Message list) \<times> event list" where
  "send_loop E onToolApproval settings keepGoing turns apiMessages newMessagesGenerated tr =
     (if keepGoing \<and> turns < 5 then
        (case turn_body E onToolApproval settings apiMessages newMessagesGenerated tr of
           (Inl e, tr') \<Rightarrow> (Inl e, tr')
         | (Inr (keepGoing', apiMessages', newMessagesGenerated'), tr') \<Rightarrow>
             send_loop E onToolApproval settings keepGoing' (Suc turns) apiMessages'
               newMessagesGenerated' tr')
      else (Inr (turns, apiMessages, newMessagesGenerated), tr))"
  by pat_completeness auto
termination
  by (relation "measure (\<lambda>(E, a, s, k, turns, m, n, tr). 5 - turns)") auto

definition limit_text :: string where
  "limit_text =
     [CHR 0xE2, CHR 0x9A, CHR 0xA0, CHR 0xEF, CHR 0xB8, CHR 0x8F] @ '' L'' @ [CHR 0xC3, CHR 0xAD]
     @ ''mite de ejecuci'' @ [CHR 0xC3, CHR 0xB3] @ ''n de herramientas alcanzado.''"

definition limitMsg :: "env \<Rightarrow> event list \<Rightarrow> Message \<times> event list" where
  "limitMsg E tr =
     (let (t1, tr1) = Date_now E tr;
          (t2, tr2) = Date_now E tr1
      in (\<lparr>msg_id = decimal t1, msg_role = Model, msg_content = Some limit_text,
            msg_timestamp = t2, msg_attachments = None, msg_toolCalls = None,
            msg_tool_call_id = None, msg_name = None, msg_usage = None,
            msg_rawDebug = None\<rparr>, tr2))"

definition sendMessage ::
  "env \<Rightarrow> AppSettings \<Rightarrow> Message list \<Rightarrow> string \<Rightarrow> Attachment list \<Rightarrow> approval
     \<Rightarrow> event list \<Rightarrow> (js_error + Message list) \<times> event list" where
  "sendMessage E settings history currentMessage attachments onToolApproval tr =
     (if active_key settings = []
      then (Inl (Error (missing_key_message (activeProvider settings))), tr)
      else
        (case send_loop E onToolApproval settings True 0
                (initial_apiMessages settings history currentMessage attachments) [] tr of
           (Inl e, tr') \<Rightarrow> (Inl e, tr')
         | (Inr (turns, apiMessages, newMessagesGenerated), tr') \<Rightarrow>
             if turns \<ge> 5
             then (let (msg, tr'') = limitMsg E tr'
                   in (Inr (newMessagesGenerated @ [msg]), tr''))
             else (Inr newMessagesGenerated, tr')))"

section \<open>Predicates used in the properties\<close>

text \<open>A tool name is enabled when a connected server lists a tool of that name and has it
  among its enabled tools: the condition under which \<^verbatim>\<open>settings.mcpServers.forEach\<close>
  registers it.\<close>

definition enabled_tool :: "AppSettings \<Rightarrow> string \<Rightarrow> bool" where
  "enabled_tool settings name =
     (\<exists>server \<in> set (mcpServers settings).
        srv_status server = Connected \<and> name \<in> set (srv_enabledTools server)
        \<and> name \<in> tool_name ` set (srv_tools server))"

text \<open>The name has been assigned in the tool map (an own property, or the prototype).\<close>

definition registered :: "string \<Rightarrow> toolmap \<times> js_object list \<Rightarrow> bool" where
  "registered name acc = (name = ''__proto__'' \<or> name \<in> fst ` set (tm_own (fst acc)))"

text \<open>What one part of \<^verbatim>\<open>result.content\<close> contributes to the text that
  \<^verbatim>\<open>executeMCPToolCall\<close> returns: \<^verbatim>\<open>c.text || JSON.stringify(c)\<close>.\<close>

definition part_contribution :: "jsval \<Rightarrow> jsval" where
  "part_contribution c =
     (if truthy (js_opt_prop c ''text'') then js_opt_prop c ''text'' else stringify_val c)"

text \<open>The provider calls among the events.\<close>

definition provider_calls :: "event list \<Rightarrow> nat" where
  "provider_calls tr = length (filter is_ProviderCall tr)"

text \<open>A chat response that carries at least one tool call, as the loop reads it: a non-empty
  \<^verbatim>\<open>choices[0].message.tool_calls\<close>, or for Gemini a function-call part in
  \<^verbatim>\<open>candidates[0].content.parts\<close>.\<close>

definition carries_tool_calls :: "Provider \<Rightarrow> llm_data \<Rightarrow> bool" where
  "carries_tool_calls provider data =
     (if provider = Gemini then
        (case d_candidates data of
           Some (Some parts # cs) \<Rightarrow> \<exists>p \<in> set parts. part_functionCall p \<noteq> None
         | _ \<Rightarrow> False)
      else
        (case d_choices data of
           Some (choice # cs) \<Rightarrow>
             (case ch_message choice of
                Some messageData \<Rightarrow>
                  (case cm_tool_calls messageData of Some (tc # tcs) \<Rightarrow> True | _ \<Rightarrow> False)
              | None \<Rightarrow> False)
         | _ \<Rightarrow> False))"

text \<open>A provider that answers every request to its chat endpoint with a success status
  and a response that carries a tool call.\<close>

definition always_tool_calls :: "env \<Rightarrow> AppSettings \<Rightarrow> bool" where
  "always_tool_calls E settings =
     (\<forall>tr req.
        h_url req = chat_url (activeProvider settings) (active_key settings)
                      (active_model settings) settings \<longrightarrow>
        (case fetch E tr req of
           Responded r \<Rightarrow>
             ok r \<and> (case body_chat r of
                       Some data \<Rightarrow> carries_tool_calls (activeProvider settings) data
                     | None \<Rightarrow> False)
         | Rejected e \<Rightarrow> False))"

text \<open>Invariants of \<^verbatim>\<open>apiMessages\<close> used in the proofs: a tool result is never an array,
  and every element of a content array is one that \<open>buildGeminiRequest\<close> converts
  without a TypeError.\<close>

definition is_array :: "jsval \<Rightarrow> bool" where
  "is_array v = (case v of JArr xs \<Rightarrow> True | _ \<Rightarrow> False)"

definition gemini_ok :: "js_object list \<Rightarrow> bool" where
  "gemini_ok msgs =
     (\<forall>m \<in> set msgs. \<forall>cs. get m ''content'' = JArr cs \<longrightarrow>
        (\<forall>c \<in> set cs. \<exists>ps. gemini_parts_of c = Inr ps))"

text \<open>The system instruction synthesized from the settings, the system-role entries of
  \<^verbatim>\<open>apiMessages\<close>, and the system instructions that a request carries on the wire: the
  contents of the system-role entries of \<^verbatim>\<open>messages\<close>, or for Gemini the texts of
  \<^verbatim>\<open>systemInstruction.parts\<close>.\<close>

definition system_message :: "AppSettings \<Rightarrow> js_object" where
  "system_message settings =
     [(''role'', JStr ''system''), (''content'', JStr (systemInstruction settings))]"

definition system_messages :: "js_object list \<Rightarrow> js_object list" where
  "system_messages msgs = filter (\<lambda>m. get m ''role'' = JStr ''system'') msgs"

definition sent_system_instructions :: "Provider \<Rightarrow> http_request \<Rightarrow> jsval list" where
  "sent_system_instructions provider req =
     (case h_body req of
        None \<Rightarrow> []
      | Some payload \<Rightarrow>
          if provider = Gemini then
            (case js_opt_prop (js_opt_prop payload ''systemInstruction'') ''parts'' of
               JArr parts \<Rightarrow> map (\<lambda>p. js_opt_prop p ''text'') parts
             | _ \<Rightarrow> [])
          else
            (case js_opt_prop payload ''messages'' of
               JArr ms \<Rightarrow> map (\<lambda>m. js_opt_prop m ''content'')
                            (filter (\<lambda>m. js_opt_prop m ''role'' = JStr ''system'') ms)
             | _ \<Rightarrow> []))"

text \<open>Every provider call among the events carries the synthesized system instruction and
  no other.\<close>

definition only_synthesized :: "AppSettings \<Rightarrow> event list \<Rightarrow> bool" where
  "only_synthesized settings evs =
     (\<forall>req. ProviderCall req \<in> set evs \<longrightarrow>
        sent_system_instructions (activeProvider settings) req
          = [JStr (systemInstruction settings)])"

section \<open>Scenarios\<close>

text \<open>Settings with no credential at all, and an environment in which every request is
  answered with status 500.\<close>

definition no_settings :: AppSettings where
  "no_settings = \<lparr>groqKey = [], groqModel = [], openRouterKey = [], openRouterModel = [],
     openaiKey = [], openaiModel = [], cerebrasKey = [], cerebrasModel = [],
     geminiKey = [], geminiModel = [], xaiKey = [], xaiModel = [],
     custom1Key = [], custom1Url = [], custom1Model = [],
     custom2Key = [], custom2Url = [], custom2Model = [],
     systemPrompt = [], activeProvider = Groq, mcpServers = []\<rparr>"

text \<open>\<^verbatim>\<open>JSON.parse\<close> on the argument strings that occur in the scenarios.\<close>

definition scenario_parse :: "string \<Rightarrow> jsval option" where
  "scenario_parse s = (if s = ''{}'' then Some (JObj []) else None)"

definition failing_env :: env where
  "failing_env =
     \<lparr>fetch = (\<lambda>tr req. Responded \<lparr>status = 500, body_text = ''Internal Server Error'',
                                     body_json = None, body_chat = None\<rparr>),
      clock = (\<lambda>tr. 1700000000000), json_parse = scenario_parse,
      origin = ''http://localhost:5173''\<rparr>"

text \<open>Scenario B of the specification: a connected tool server with the enabled tool
  \<^verbatim>\<open>search\<close>, and a model that calls it.\<close>

definition search_tool :: MCPTool where
  "search_tool = \<lparr>tool_name = ''search'', tool_description = Some ''Search the notes'',
                   inputSchema = JObj [(''type'', JStr ''object'')]\<rparr>"

definition local_server :: MCPServer where
  "local_server = \<lparr>srv_id = ''srv-1'', srv_url = ''http://localhost:8000/mcp'',
     srv_transport = ''sse'', srv_authType = ''none'', srv_authToken = [],
     srv_status = Connected, srv_errorMessage = [], srv_tools = [search_tool],
     srv_enabledTools = [''search'']\<rparr>"

definition openai_settings :: AppSettings where
  "openai_settings = no_settings\<lparr>openaiKey := ''sk-test'', activeProvider := OpenAI,
                                  mcpServers := [local_server]\<rparr>"

definition search_call :: tool_call where
  "search_call = \<lparr>tc_id = ''a'', tc_type = ''function'', fn_name = ''search'',
                   fn_arguments = Some ''{}''\<rparr>"

text \<open>A tool call whose name no server offers but every object inherits; a response of
  the Gemini shape with two function-call parts.\<close>

definition toString_call :: tool_call where
  "toString_call = \<lparr>tc_id = ''b'', tc_type = ''function'', fn_name = ''toString'',
                     fn_arguments = Some ''{}''\<rparr>"

definition two_calls_data :: llm_data where
  "two_calls_data =
     \<lparr>d_id = None, d_choices = None,
      d_candidates = Some [Some [\<lparr>part_text = None,
                                  part_functionCall = Some \<lparr>fc_name = ''search'', fc_args = JObj []\<rparr>\<rparr>,
                                 \<lparr>part_text = None,
                                  part_functionCall = Some \<lparr>fc_name = ''list_notes'', fc_args = JObj []\<rparr>\<rparr>]],
      d_usage = None\<rparr>"

text \<open>Answers of a tool server.\<close>

definition http_reply :: "nat \<Rightarrow> string \<Rightarrow> jsval option \<Rightarrow> http_response" where
  "http_reply code text json =
     \<lparr>status = code, body_text = text, body_json = json, body_chat = None\<rparr>"

definition rpc_result :: "jsval \<Rightarrow> jsval" where
  "rpc_result result = JObj [(''jsonrpc'', JStr ''2.0''), (''id'', JNum 1), (''result'', result)]"

definition empty_text_part :: jsval where
  "empty_text_part = JObj [(''type'', JStr ''text''), (''text'', JStr [])]"

definition captioned_image_part :: jsval where
  "captioned_image_part =
     JObj [(''type'', JStr ''image''), (''data'', JStr ''iVBORw0KGgo=''),
           (''mimeType'', JStr ''image/png''), (''text'', JStr ''a chart'')]"

definition error_data :: jsval where
  "error_data = JObj [(''jsonrpc'', JStr ''2.0''), (''id'', JNum 1),
                      (''error'', JObj [(''code'', JNum (- 32601)),
                                        (''message'', JStr ''Method not found'')])]"

definition two_text_parts :: "jsval list" where
  "two_text_parts = [JObj [(''type'', JStr ''text''), (''text'', JStr ''result-text'')],
                     JObj [(''type'', JStr ''text''), (''text'', JStr ''second line'')]]"

text \<open>The provider of the scenarios: it asks for the tool \<^verbatim>\<open>search\<close> in each of its first
  \<open>n\<close> responses and then answers. The tool server answers every call with one text
  part. The clock advances with the events.\<close>

definition tool_turn_data :: llm_data where
  "tool_turn_data =
     \<lparr>d_id = Some ''chatcmpl-1'',
      d_choices = Some [\<lparr>ch_message = Some \<lparr>cm_content = None, cm_tool_calls = Some [search_call]\<rparr>,
                         ch_images = None\<rparr>],
      d_candidates = None, d_usage = None\<rparr>"

definition final_data :: llm_data where
  "final_data =
     \<lparr>d_id = Some ''chatcmpl-2'',
      d_choices = Some [\<lparr>ch_message = Some \<lparr>cm_content = Some ''4'', cm_tool_calls = None\<rparr>,
                         ch_images = None\<rparr>],
      d_candidates = None,
      d_usage = Some \<lparr>prompt_tokens = Some 12, input_tokens = None, completion_tokens = Some 1,
                       output_tokens = None, total_tokens = Some 13\<rparr>\<rparr>"

definition chat_reply :: "llm_data \<Rightarrow> fetch_result" where
  "chat_reply d = Responded \<lparr>status = 200, body_text = [], body_json = None, body_chat = Some d\<rparr>"

definition search_reply :: fetch_result where
  "search_reply =
     Responded (http_reply 200 []
       (Some (rpc_result (JObj [(''content'',
                JArr [JObj [(''type'', JStr ''text''), (''text'', JStr ''result-text'')]])]))))"

definition agent_env :: "nat \<Rightarrow> env" where
  "agent_env n =
     \<lparr>fetch = (\<lambda>tr req.
         if h_url req = srv_url local_server then search_reply
         else chat_reply (if length (filter is_ProviderCall tr) < n then tool_turn_data
                          else final_data)),
      clock = (\<lambda>tr. 1700000000000 + length tr),
      json_parse = scenario_parse,
      origin = ''http://localhost:5173''\<rparr>"

definition looping_env :: env where
  "looping_env =
     \<lparr>fetch = (\<lambda>tr req. if h_url req = srv_url local_server then search_reply
                          else chat_reply tool_turn_data),
      clock = (\<lambda>tr. 1700000000000 + length tr),
      json_parse = scenario_parse,
      origin = ''http://localhost:5173''\<rparr>"

text \<open>The first request of a conversation that starts with the question \<^verbatim>\<open>2+2?\<close>.\<close>

definition first_payload :: jsval where
  "first_payload =
     openai_payload ''gpt-4o-mini'' (initial_apiMessages openai_settings [] ''2+2?'' [])
       (activeToolsDefs openai_settings)"

definition first_request :: http_request where
  "first_request =
     \<lparr>h_method = ''POST'', h_url = ''https://api.openai.com/v1/chat/completions'',
      h_headers = [(''Content-Type'', ''application/json''), (''Authorization'', ''Bearer sk-test'')],
      h_body = Some first_payload\<rparr>"

text \<open>A history that holds a system-role message, and the request sent for it.\<close>

definition french_history :: "Message list" where
  "french_history =
     [\<lparr>msg_id = ''1'', msg_role = System, msg_content = Some ''Answer only in French.'',
       msg_timestamp = 1699999999000, msg_attachments = None, msg_toolCalls = None,
       msg_tool_call_id = None, msg_name = None, msg_usage = None, msg_rawDebug = None\<rparr>,
      \<lparr>msg_id = ''2'', msg_role = User, msg_content = Some ''hola'',
       msg_timestamp = 1699999999500, msg_attachments = None, msg_toolCalls = None,
       msg_tool_call_id = None, msg_name = None, msg_usage = None, msg_rawDebug = None\<rparr>]"

definition history_request :: http_request where
  "history_request =
     \<lparr>h_method = ''POST'', h_url = ''https://api.openai.com/v1/chat/completions'',
      h_headers = [(''Content-Type'', ''application/json''), (''Authorization'', ''Bearer sk-test'')],
      h_body = Some (openai_payload ''gpt-4o-mini''
                       (initial_apiMessages openai_settings french_history ''2+2?'' [])
                       (activeToolsDefs openai_settings))\<rparr>"

section \<open>Properties\<close>

declare send_loop.simps [simp del]
declare decimal.simps [simp del]

subsection \<open>A missing credential\<close>

text \<open>
  C9. When the credential of the active provider is empty, \<open>sendMessage\<close> throws one error
  and does nothing else: no event is added (no provider call, no approval, no clock
  read) and no message is produced. The history is an argument that is only read.
\<close>

theorem missing_key_throws:
  "active_key settings = [] \<Longrightarrow>
   sendMessage E settings history currentMessage attachments onToolApproval tr
     = (Inl (Error (missing_key_message (activeProvider settings))), tr)"
  by (simp add: sendMessage_def)

theorem missing_key_throws_witness:
  "active_key no_settings = [] \<and>
   sendMessage failing_env no_settings [] ''hola'' [] (\<lambda>tr n a. True) []
     = (Inl (Error (''La API Key para groq no est'' @ [CHR 0xC3, CHR 0xA1] @ '' configurada.'')), [])"
proof -
  have k: "active_key no_settings = []"
    by (simp add: active_key_def no_settings_def)
  show ?thesis
    using k missing_key_throws [OF k, of failing_env "[]" "''hola''" "[]" "\<lambda>tr n a. True" "[]"]
    by (simp add: missing_key_message_def no_settings_def)
qed

subsection \<open>Model discovery\<close>

lemma failed_cases:
  "failed res \<Longrightarrow>
   (\<exists>e. res = Rejected e) \<or> (\<exists>r. res = Responded r \<and> (\<not> ok r \<or> body_json r = None))"
  by (cases res) (simp_all add: failed_def)

lemma fetchModels_try_failed:
  assumes "\<forall>req. failed (fetch E tr req)"
  shows "fst (fetchModels_try E provider key customUrl tr) = Inr (fallback provider)
   \<or> (\<exists>e. fst (fetchModels_try E provider key customUrl tr) = Inl e)"
proof -
  define endpoint where "endpoint =
            (case customUrl of
               Some u \<Rightarrow> if (provider = Custom1 \<or> provider = Custom2) \<and> u \<noteq> []
                         then u @ ''/models'' else models_endpoint provider
             | None \<Rightarrow> models_endpoint provider)"
  define req where "req = \<lparr>h_method = ''GET'',
      h_url = (if provider = Gemini then endpoint @ ''?key='' @ key else endpoint),
      h_headers = (if provider = Gemini then []
                  else [(''Authorization'', ''Bearer '' @ key)]
                       @ (if provider = OpenRouter then [(''HTTP-Referer'', origin E)] else [])),
      h_body = None\<rparr>"
  have unfold: "fetchModels_try E provider key customUrl tr =
     (if endpoint = [] then (Inr (fallback provider), tr)
      else case fetch E tr req of
             Rejected e \<Rightarrow> (Inl e, tr @ [ModelListCall req])
           | Responded response \<Rightarrow>
               if \<not> ok response then (Inr (fallback provider), tr @ [ModelListCall req])
               else (case body_json response of
                       None \<Rightarrow> (Inl (SyntaxError ''Unexpected token in JSON''),
                                 tr @ [ModelListCall req])
                     | Some data \<Rightarrow> (models_of_body provider data, tr @ [ModelListCall req])))"
    unfolding fetchModels_try_def endpoint_def req_def Let_def by (rule refl)
  from assms have "failed (fetch E tr req)" by blast
  from failed_cases [OF this] show ?thesis
    unfolding unfold by (cases "endpoint = []") auto
qed

text \<open>
  C4. \<open>fetchModels\<close> never throws: for every environment, provider, credential and
  override URL it returns a list. When the request fails in transport, is answered
  with a failure status, or is answered with a body that is not JSON, the list is the
  static fallback list of the provider.
\<close>

theorem fetchModels_never_throws:
  "(\<exists>models tr'. fetchModels E provider key customUrl tr = (Inr models, tr')) \<and>
   ((\<forall>req. failed (fetch E tr req)) \<longrightarrow>
      fst (fetchModels E provider key customUrl tr) = Inr (fallback provider))"
proof
  show "\<exists>models tr'. fetchModels E provider key customUrl tr = (Inr models, tr')"
    by (cases "fetchModels_try E provider key customUrl tr")
       (auto simp: fetchModels_def split: sum.splits)
next
  show "(\<forall>req. failed (fetch E tr req)) \<longrightarrow>
      fst (fetchModels E provider key customUrl tr) = Inr (fallback provider)"
  proof
    assume "\<forall>req. failed (fetch E tr req)"
    from fetchModels_try_failed [OF this, of provider key customUrl]
    show "fst (fetchModels E provider key customUrl tr) = Inr (fallback provider)"
      by (cases "fetchModels_try E provider key customUrl tr")
         (auto simp: fetchModels_def split: sum.splits)
  qed
qed

theorem fetchModels_never_throws_witness:
  "(\<forall>req. failed (fetch failing_env [] req)) \<and>
   fst (fetchModels failing_env OpenAI ''sk-test'' None [])
     = Inr (map JStr [''gpt-4o'', ''gpt-4o-mini'', ''gpt-4-turbo'', ''gpt-3.5-turbo'',
                      ''o1-preview'', ''o1-mini''])"
proof -
  have f: "\<forall>req. failed (fetch failing_env [] req)"
    by (simp add: failing_env_def failed_def ok_def)
  show ?thesis
    using f fetchModels_never_throws [of failing_env OpenAI "''sk-test''" None "[]"]
    by (simp add: fallback_def)
qed

subsection \<open>Tool calls: approval and lookup\<close>

lemma fold_keeps:
  "P acc \<Longrightarrow> (\<And>x a. P a \<Longrightarrow> P (f x a)) \<Longrightarrow> P (fold f xs acc)"
  by (induction xs arbitrary: acc) auto

lemma fold_establishes:
  "x \<in> set xs \<Longrightarrow> (\<And>a. P (f x a)) \<Longrightarrow> (\<And>y a. P a \<Longrightarrow> P (f y a)) \<Longrightarrow> P (fold f xs acc)"
proof (induction xs arbitrary: acc)
  case Nil
  then show ?case by simp
next
  case (Cons y ys)
  show ?case
  proof (cases "x = y")
    case True
    have "P (f y acc)" using Cons.prems(2) True by simp
    then show ?thesis using Cons.prems(3) by (simp add: fold_keeps)
  next
    case False
    then have "x \<in> set ys" using Cons.prems(1) by simp
    from Cons.IH [OF this Cons.prems(2) Cons.prems(3)] show ?thesis by simp
  qed
qed

lemma registered_tool_keeps: "registered name acc \<Longrightarrow> registered name (register_tool server t acc)"
  by (auto simp: registered_def register_tool_def toolmap_set_def)

lemma registered_tool_new: "registered (tool_name t) (register_tool server t acc)"
  by (auto simp: registered_def register_tool_def toolmap_set_def)

lemma registered_server_keeps:
  "registered name acc \<Longrightarrow> registered name (register_server server acc)"
  unfolding register_server_def
  by (auto intro: fold_keeps registered_tool_keeps)

lemma registered_server_new:
  assumes "srv_status server = Connected" "name \<in> set (srv_enabledTools server)"
    "name \<in> tool_name ` set (srv_tools server)"
  shows "registered name (register_server server acc)"
proof -
  from assms(3) obtain t where t: "t \<in> set (srv_tools server)" "tool_name t = name" by auto
  with assms(2) have mem:
    "t \<in> set (filter (\<lambda>t. tool_name t \<in> set (srv_enabledTools server)) (srv_tools server))"
    by simp
  have "registered name (fold (register_tool server)
          (filter (\<lambda>t. tool_name t \<in> set (srv_enabledTools server)) (srv_tools server)) acc)"
  proof (rule fold_establishes [OF mem])
    fix a show "registered name (register_tool server t a)"
      using registered_tool_new [of t server a] t(2) by simp
  next
    fix y a assume "registered name a"
    then show "registered name (register_tool server y a)" by (rule registered_tool_keeps)
  qed
  then show ?thesis using assms(1) by (simp add: register_server_def)
qed

lemma enabled_tool_registered:
  assumes "enabled_tool settings name"
  shows "registered name (fold register_server (mcpServers settings) (empty_toolmap, []))"
proof -
  from assms obtain server where s: "server \<in> set (mcpServers settings)"
    "srv_status server = Connected" "name \<in> set (srv_enabledTools server)"
    "name \<in> tool_name ` set (srv_tools server)"
    by (auto simp: enabled_tool_def)
  show ?thesis
  proof (rule fold_establishes [OF s(1)])
    fix a show "registered name (register_server server a)"
      by (rule registered_server_new [OF s(2) s(3) s(4)])
  next
    fix y a assume "registered name a"
    then show "registered name (register_server y a)" by (rule registered_server_keeps)
  qed
qed

lemma registered_get: "registered name (tm, defs) \<Longrightarrow> \<exists>v. toolmap_get tm name = Some v"
  by (auto simp: registered_def toolmap_get_def map_of_eq_None_iff split: option.splits)

lemma enabled_tool_get:
  "enabled_tool settings name \<Longrightarrow> \<exists>v. toolmap_get (toolMap settings) name = Some v"
  using enabled_tool_registered [of settings name]
    registered_get [of name "toolMap settings" "activeToolsDefs settings"]
  by (simp add: toolMap_def activeToolsDefs_def)

text \<open>
  C5. For a tool call whose name is enabled, when the approval callback resolves to
  false, the tool message appended has the fixed denial string as its content, and the
  only event of the step is the approval request: no request goes to the tool server.
\<close>

theorem denied_tool_call_not_executed:
  assumes "enabled_tool settings (fn_name toolCall)"
    and "\<not> onToolApproval tr (fn_name toolCall) (parsed_args E toolCall)"
  shows "process_tool_call E onToolApproval (toolMap settings) toolCall (apiMessages, tr)
         = (apiMessages @ [tool_message toolCall (JStr denied_text)],
            tr @ [ApprovalAsked (fn_name toolCall) (parsed_args E toolCall)])"
proof -
  from enabled_tool_get [OF assms(1)] obtain v
    where "toolmap_get (toolMap settings) (fn_name toolCall) = Some v" by blast
  with assms(2) show ?thesis
    by (simp add: process_tool_call_def Let_def)
qed

theorem denied_tool_call_not_executed_witness:
  "enabled_tool openai_settings (fn_name search_call)
   \<and> \<not> (\<lambda>tr name args. False) [] (fn_name search_call) (parsed_args failing_env search_call)
   \<and> process_tool_call failing_env (\<lambda>tr name args. False) (toolMap openai_settings) search_call ([], [])
       = ([[(''role'', JStr ''tool''), (''tool_call_id'', JStr ''a''), (''name'', JStr ''search''),
            (''content'', JStr ''User denied execution of this tool.'')]],
          [ApprovalAsked ''search'' (JObj [])])"
proof -
  have e: "enabled_tool openai_settings (fn_name search_call)"
    by (simp add: enabled_tool_def openai_settings_def local_server_def search_tool_def
        search_call_def)
  have a: "\<not> (\<lambda>tr name args. False) [] (fn_name search_call) (parsed_args failing_env search_call)"
    by simp
  show ?thesis
    using e denied_tool_call_not_executed [OF e a, where apiMessages = "[]"]
    by (simp add: tool_message_def denied_text_def search_call_def parsed_args_def
        failing_env_def scenario_parse_def opt_str_def)
qed

lemma digit_chars:
  "digit_char 0 = CHR ''0''" "digit_char (Suc 0) = CHR ''1''" "digit_char 1 = CHR ''1''"
  "digit_char 2 = CHR ''2''" "digit_char 3 = CHR ''3''" "digit_char 4 = CHR ''4''"
  "digit_char 5 = CHR ''5''" "digit_char 6 = CHR ''6''" "digit_char 7 = CHR ''7''"
  "digit_char 8 = CHR ''8''" "digit_char 9 = CHR ''9''"
  by (simp_all add: digit_char_def)

lemma fold_keeps_members:
  "P acc \<Longrightarrow> (\<And>x a. x \<in> set xs \<Longrightarrow> P a \<Longrightarrow> P (f x a)) \<Longrightarrow> P (fold f xs acc)"
  by (induction xs arbitrary: acc) auto

lemma only_enabled_registered:
  "(\<forall>n \<in> fst ` set (tm_own (toolMap settings)). enabled_tool settings n)
   \<and> (tm_proto (toolMap settings) \<noteq> None \<longrightarrow> enabled_tool settings ''__proto__'')"
proof -
  define Q where "Q = (\<lambda>acc :: toolmap \<times> js_object list.
      (\<forall>n \<in> fst ` set (tm_own (fst acc)). enabled_tool settings n)
      \<and> (tm_proto (fst acc) \<noteq> None \<longrightarrow> enabled_tool settings ''__proto__''))"
  have tool: "Q (register_tool server t a)"
    if "server \<in> set (mcpServers settings)" "srv_status server = Connected"
      "t \<in> set (srv_tools server)" "tool_name t \<in> set (srv_enabledTools server)" "Q a"
    for server t a
  proof -
    have "enabled_tool settings (tool_name t)"
      using that(1-4) by (auto simp: enabled_tool_def)
    with that(5) show ?thesis
      by (auto simp: Q_def register_tool_def toolmap_set_def)
  qed
  have server: "Q (register_server server a)"
    if "server \<in> set (mcpServers settings)" "Q a" for server a
  proof (cases "srv_status server = Connected")
    case False
    with that(2) show ?thesis by (simp add: register_server_def)
  next
    case True
    have "Q (fold (register_tool server)
               (filter (\<lambda>t. tool_name t \<in> set (srv_enabledTools server)) (srv_tools server)) a)"
    proof (rule fold_keeps_members [where P = Q, OF that(2)])
      fix t a'
      assume "t \<in> set (filter (\<lambda>t. tool_name t \<in> set (srv_enabledTools server))
                            (srv_tools server))" "Q a'"
      then show "Q (register_tool server t a')"
        using tool [OF that(1) True, of t a'] by simp
    qed
    with True show ?thesis by (simp add: register_server_def)
  qed
  have "Q (empty_toolmap, [])" by (simp add: Q_def empty_toolmap_def)
  then have "Q (fold register_server (mcpServers settings) (empty_toolmap, []))"
    by (rule fold_keeps_members [where P = Q]) (rule server)
  then show ?thesis by (simp add: Q_def toolMap_def)
qed

lemma lookup_not_enabled:
  assumes "\<not> enabled_tool settings name" "\<not> enabled_tool settings ''__proto__''"
    "name \<notin> set Object_prototype_members" "name \<noteq> ''__proto__''"
  shows "toolmap_get (toolMap settings) name = None"
proof -
  from only_enabled_registered [of settings] assms(1,2)
  have "name \<notin> fst ` set (tm_own (toolMap settings))" "tm_proto (toolMap settings) = None"
    by auto
  then have "map_of (tm_own (toolMap settings)) name = None"
    by (simp add: map_of_eq_None_iff)
  with \<open>tm_proto (toolMap settings) = None\<close> assms(3,4) show ?thesis
    by (simp add: toolmap_get_def)
qed

lemma unknown_tool_not_found:
  "toolmap_get tm (fn_name toolCall) = None \<Longrightarrow>
   process_tool_call E onToolApproval tm toolCall (apiMessages, tr)
     = (apiMessages @ [tool_message toolCall (JStr not_found_text)], tr)"
  by (simp add: process_tool_call_def Let_def)

lemma not_enabled_tool_not_found:
  assumes "\<not> enabled_tool settings (fn_name toolCall)" "\<not> enabled_tool settings ''__proto__''"
    "fn_name toolCall \<notin> set Object_prototype_members" "fn_name toolCall \<noteq> ''__proto__''"
  shows "process_tool_call E onToolApproval (toolMap settings) toolCall (apiMessages, tr)
         = (apiMessages @ [tool_message toolCall (JStr not_found_text)], tr)"
  using unknown_tool_not_found [OF lookup_not_enabled [OF assms]] .

text \<open>
  C6. The claim fails for a name that the tool map inherits. With no tool server at all,
  a call of \<^verbatim>\<open>toString\<close> finds \<^verbatim>\<open>Object.prototype.toString\<close> in \<^verbatim>\<open>toolMap\<close>: the approval
  callback is invoked, and the tool message is the denial string or, after approval, the
  error of a request sent to the URL \<^verbatim>\<open>undefined\<close>; it is never the "tool not found"
  string. For a name that no server enables and that is not inherited, the claim holds
  (\<open>not_enabled_tool_not_found\<close>).
\<close>

theorem inherited_name_asks_approval:
  "\<not> enabled_tool no_settings ''toString''
   \<and> process_tool_call failing_env (\<lambda>tr name args. False) (toolMap no_settings) toString_call ([], [])
       = ([tool_message toString_call (JStr denied_text)], [ApprovalAsked ''toString'' (JObj [])])
   \<and> process_tool_call failing_env (\<lambda>tr name args. True) (toolMap no_settings) toString_call ([], [])
       = ([tool_message toString_call
             (JStr ''Error executing tool: MCP Server Error (500): Internal Server Error'')],
          [ApprovalAsked ''toString'' (JObj []), DateNow,
           ToolServerCall (tools_call_request NotAServer ''toString'' (JObj []) 1700000000000)])"
  by (simp add: enabled_tool_def no_settings_def process_tool_call_def toolMap_def
      empty_toolmap_def toolmap_get_def Object_prototype_members_def toString_call_def
      parsed_args_def failing_env_def scenario_parse_def opt_str_def Let_def
      executeMCPToolCall_def Date_now_def tools_call_result_def ok_def decimal.simps
      digit_chars)

subsection \<open>Tool-call ids of the Gemini parser\<close>

text \<open>
  C7. The claim fails in \<open>parseGeminiResponse\<close>: the id of a function-call part is
  \<^verbatim>\<open>gemini-\<close> followed by the clock reading, and the clock has millisecond resolution.
  Two function-call parts of one response that are mapped within the same millisecond
  get the same id.
\<close>

theorem gemini_ids_coincide:
  "parseGeminiResponse failing_env two_calls_data []
   = (([], Some [\<lparr>tc_id = ''gemini-1700000000000'', tc_type = ''function'', fn_name = ''search'',
                   fn_arguments = Some ''{}''\<rparr>,
                 \<lparr>tc_id = ''gemini-1700000000000'', tc_type = ''function'', fn_name = ''list_notes'',
                   fn_arguments = Some ''{}''\<rparr>]),
      [DateNow, DateNow])"
  by (simp add: parseGeminiResponse_def two_calls_data_def List.map_filter_def Date_now_def
      failing_env_def decimal.simps digit_chars)

subsection \<open>The result of a tool call\<close>

lemma js_prop_opt: "\<not> nullish v \<Longrightarrow> js_prop v p = Inr (js_opt_prop v p)"
  by (cases v) (simp_all add: js_opt_prop_def)

lemma truthy_not_nullish: "truthy v \<Longrightarrow> \<not> nullish v"
  by (cases v) simp_all

lemma mcp_part_text_eq: "\<not> nullish c \<Longrightarrow> mcp_part_text c = Inr (part_contribution c)"
  by (simp add: mcp_part_text_def part_contribution_def js_prop_opt)

lemma mapE_total: "(\<And>x. x \<in> set xs \<Longrightarrow> f x = Inr (g x)) \<Longrightarrow> mapE f xs = Inr (map g xs)"
  by (induction xs) simp_all

lemma executeMCPToolCall_fetch:
  "fst (executeMCPToolCall E server toolName args tr)
   = tools_call_result (fetch E (tr @ [DateNow])
       (tools_call_request server toolName args (clock E tr)))"
  by (simp add: executeMCPToolCall_def Date_now_def Let_def)

lemma mcp_result_error:
  assumes "\<not> nullish data" "truthy (js_opt_prop data ''error'')"
  shows "mcp_result data = Inl (new_Error (js_opt_prop (js_opt_prop data ''error'') ''message''))"
  using assms by (simp add: mcp_result_def js_prop_opt truthy_not_nullish)

lemma mcp_result_parts:
  assumes "\<not> nullish data" "\<not> truthy (js_opt_prop data ''error'')"
    "truthy (js_opt_prop data ''result'')"
    "js_opt_prop (js_opt_prop data ''result'') ''content'' = JArr parts"
    "\<forall>c \<in> set parts. \<not> nullish c"
  shows "mcp_result data = Inr (JStr (js_join [CHR 0x0A] (map part_contribution parts)))"
proof -
  have "mapE mcp_part_text parts = Inr (map part_contribution parts)"
    using assms(5) by (intro mapE_total) (simp add: mcp_part_text_eq)
  with assms(1-4) show ?thesis
    by (simp add: mcp_result_def js_prop_opt truthy_not_nullish)
qed

lemma mcp_result_plain:
  assumes "\<not> nullish data" "\<not> truthy (js_opt_prop data ''error'')"
    "\<not> truthy (if truthy (js_opt_prop data ''result'')
               then js_opt_prop (js_opt_prop data ''result'') ''content''
               else js_opt_prop data ''result'')"
  shows "mcp_result data
         = Inr (stringify_val (if truthy (js_opt_prop data ''result'')
                               then js_opt_prop data ''result'' else data))"
  using assms by (auto simp: mcp_result_def js_prop_opt truthy_not_nullish)

text \<open>
  C8, as stated, fails: a part contributes its \<^verbatim>\<open>text\<close> whenever that is truthy,
  whatever its type, so a part of type \<^verbatim>\<open>image\<close> that has a text contributes the text and
  not its JSON serialization; a text part whose text is empty contributes its JSON
  serialization, not its text field; and a \<^verbatim>\<open>result.content\<close> that is truthy but not an
  array (here a string) makes the call throw instead of serializing the result.
\<close>

theorem part_text_decides_contribution:
  "tools_call_result (Responded (http_reply 200 []
         (Some (rpc_result (JObj [(''content'', JArr [captioned_image_part])])))))
       = Inr (JStr ''a chart'')
   \<and> stringify_val captioned_image_part \<noteq> JStr ''a chart''
   \<and> js_prop empty_text_part ''text'' = Inr (JStr [])
   \<and> stringify_val empty_text_part \<noteq> JStr []
   \<and> tools_call_result (Responded (http_reply 200 []
         (Some (rpc_result (JObj [(''content'', JArr [empty_text_part])])))))
       = Inr (stringify_val empty_text_part)
   \<and> tools_call_result (Responded (http_reply 200 []
         (Some (rpc_result (JObj [(''content'', JStr ''done'')])))))
       = Inl (TypeError ''data.result.content.map is not a function'')"
  by (simp add: empty_text_part_def captioned_image_part_def stringify_val_def
      tools_call_result_def http_reply_def rpc_result_def ok_def mcp_result_def
      mcp_part_text_def js_join_def json_quote_def)

text \<open>
  C8, amended. The result of \<open>executeMCPToolCall\<close> is decided by the answer to its
  request. A status outside 200..299 throws an error that carries the status and the
  body. On a success status with a body \<open>data\<close> that is JSON and not \<^verbatim>\<open>null\<close>: a truthy
  \<^verbatim>\<open>data.error\<close> throws an error with its message; otherwise, when \<^verbatim>\<open>data.result.content\<close>
  is an array of parts none of which is \<^verbatim>\<open>null\<close>, the result is the parts' contributions
  joined by newlines, where a part with a truthy \<^verbatim>\<open>text\<close> contributes it and any other part
  contributes its JSON serialization; and when \<^verbatim>\<open>data.result.content\<close> is falsy or absent,
  the result is the JSON serialization of \<^verbatim>\<open>data.result\<close>, or of \<open>data\<close> when
  \<^verbatim>\<open>data.result\<close> is falsy.
\<close>

theorem callTool_result:
  "fst (executeMCPToolCall E server toolName args tr)
     = tools_call_result (fetch E (tr @ [DateNow])
         (tools_call_request server toolName args (clock E tr)))
   \<and> (\<not> ok r \<longrightarrow>
        tools_call_result (Responded r)
          = Inl (Error (''MCP Server Error ('' @ decimal (status r) @ ''): '' @ body_text r)))
   \<and> (ok r \<and> body_json r = Some data \<and> \<not> nullish data \<and> truthy (js_opt_prop data ''error'') \<longrightarrow>
        tools_call_result (Responded r)
          = Inl (new_Error (js_opt_prop (js_opt_prop data ''error'') ''message'')))
   \<and> (ok r \<and> body_json r = Some data \<and> \<not> nullish data \<and> \<not> truthy (js_opt_prop data ''error'')
        \<and> truthy (js_opt_prop data ''result'')
        \<and> js_opt_prop (js_opt_prop data ''result'') ''content'' = JArr parts
        \<and> (\<forall>c \<in> set parts. \<not> nullish c) \<longrightarrow>
        tools_call_result (Responded r)
          = Inr (JStr (js_join [CHR 0x0A] (map part_contribution parts))))
   \<and> (ok r \<and> body_json r = Some data \<and> \<not> nullish data \<and> \<not> truthy (js_opt_prop data ''error'')
        \<and> \<not> truthy (if truthy (js_opt_prop data ''result'')
                     then js_opt_prop (js_opt_prop data ''result'') ''content''
                     else js_opt_prop data ''result'') \<longrightarrow>
        tools_call_result (Responded r)
          = Inr (stringify_val (if truthy (js_opt_prop data ''result'')
                                then js_opt_prop data ''result'' else data)))"
  using mcp_result_error [of data] mcp_result_parts [of data parts] mcp_result_plain [of data]
  by (simp add: executeMCPToolCall_fetch tools_call_result_def)

theorem callTool_result_witness:
  "\<not> ok (http_reply 500 ''Internal Server Error'' None)
   \<and> tools_call_result (Responded (http_reply 500 ''Internal Server Error'' None))
       = Inl (Error ''MCP Server Error (500): Internal Server Error'')
   \<and> ok (http_reply 200 [] (Some error_data)) \<and> truthy (js_opt_prop error_data ''error'')
   \<and> tools_call_result (Responded (http_reply 200 [] (Some error_data)))
       = Inl (Error ''Method not found'')
   \<and> js_opt_prop (js_opt_prop (rpc_result (JObj [(''content'', JArr two_text_parts)])) ''result'')
         ''content'' = JArr two_text_parts
   \<and> tools_call_result (Responded (http_reply 200 []
         (Some (rpc_result (JObj [(''content'', JArr two_text_parts)])))))
       = Inr (JStr (''result-text'' @ [CHR 0x0A] @ ''second line''))
   \<and> js_opt_prop (js_opt_prop (rpc_result (JObj [(''done'', JBool True)])) ''result'') ''content''
       = JUndef
   \<and> tools_call_result (Responded (http_reply 200 [] (Some (rpc_result (JObj [(''done'', JBool True)])))))
       = Inr (stringify_val (JObj [(''done'', JBool True)]))"
  using callTool_result [where r = "http_reply 500 ''Internal Server Error'' None"]
    callTool_result [where r = "http_reply 200 [] (Some error_data)" and data = error_data]
    callTool_result [where r = "http_reply 200 [] (Some (rpc_result (JObj [(''content'', JArr two_text_parts)])))"
      and data = "rpc_result (JObj [(''content'', JArr two_text_parts)])" and parts = two_text_parts]
    callTool_result [where r = "http_reply 200 [] (Some (rpc_result (JObj [(''done'', JBool True)])))"
      and data = "rpc_result (JObj [(''done'', JBool True)])"]
  by (simp add: http_reply_def error_data_def rpc_result_def two_text_parts_def ok_def
      js_opt_prop_def new_Error_def part_contribution_def js_join_def decimal.simps
      digit_chars)

subsection \<open>The tool loop\<close>

lemma stringify_val_not_array: "\<not> is_array (stringify_val v)"
  by (simp add: stringify_val_def is_array_def split: option.splits)

lemma stringify_val_neq_array [simp]: "stringify_val v \<noteq> JArr xs"
  by (simp add: stringify_val_def split: option.splits)

lemma bindE_Inr: "bindE m f = Inr y \<Longrightarrow> \<exists>x. m = Inr x \<and> f x = Inr y"
  by (cases m) simp_all

lemma mcp_result_not_array: "mcp_result data = Inr v \<Longrightarrow> \<not> is_array v"
  unfolding mcp_result_def
  by (auto dest!: bindE_Inr simp: stringify_val_not_array is_array_def
      split: if_splits jsval.splits)

lemma tools_call_result_not_array: "tools_call_result res = Inr v \<Longrightarrow> \<not> is_array v"
  by (auto simp: tools_call_result_def mcp_result_not_array
      split: fetch_result.splits if_splits option.splits)

lemma executeMCPToolCall_shape:
  "\<exists>r req. executeMCPToolCall E server toolName args tr = (r, tr @ [DateNow, ToolServerCall req])
     \<and> (\<forall>v. r = Inr v \<longrightarrow> \<not> is_array v)"
  by (auto simp: executeMCPToolCall_def Date_now_def Let_def tools_call_result_not_array)

lemma process_tool_call_shape:
  "\<exists>res evs. process_tool_call E onToolApproval tm toolCall (apiMessages, tr)
       = (apiMessages @ [tool_message toolCall res], tr @ evs)
     \<and> \<not> is_array res \<and> (\<forall>e \<in> set evs. \<not> is_ProviderCall e)"
proof (cases "toolmap_get tm (fn_name toolCall)")
  case None
  then have "process_tool_call E onToolApproval tm toolCall (apiMessages, tr)
       = (apiMessages @ [tool_message toolCall (JStr not_found_text)], tr @ [])"
    by (simp add: process_tool_call_def Let_def)
  then show ?thesis
    by (intro exI [of _ "JStr not_found_text"] exI [of _ "[]"]) (simp add: is_array_def)
next
  case (Some server)
  show ?thesis
  proof (cases "onToolApproval tr (fn_name toolCall) (parsed_args E toolCall)")
    case False
    with Some have "process_tool_call E onToolApproval tm toolCall (apiMessages, tr)
       = (apiMessages @ [tool_message toolCall (JStr denied_text)],
          tr @ [ApprovalAsked (fn_name toolCall) (parsed_args E toolCall)])"
      by (simp add: process_tool_call_def Let_def)
    then show ?thesis
      by (intro exI [of _ "JStr denied_text"]
          exI [of _ "[ApprovalAsked (fn_name toolCall) (parsed_args E toolCall)]"])
        (simp add: is_array_def)
  next
    case True
    define tr1 where "tr1 = tr @ [ApprovalAsked (fn_name toolCall) (parsed_args E toolCall)]"
    from executeMCPToolCall_shape [of E server "fn_name toolCall" "parsed_args E toolCall" tr1]
    obtain r req where ex: "executeMCPToolCall E server (fn_name toolCall) (parsed_args E toolCall) tr1
        = (r, tr1 @ [DateNow, ToolServerCall req])"
      and na: "\<forall>v. r = Inr v \<longrightarrow> \<not> is_array v" by blast
    define res where "res = (case r of Inr v \<Rightarrow> v
                             | Inl err \<Rightarrow> JStr (''Error executing tool: '' @ err_message err))"
    have "process_tool_call E onToolApproval tm toolCall (apiMessages, tr)
       = (apiMessages @ [tool_message toolCall res], tr1 @ [DateNow, ToolServerCall req])"
      using Some True ex
      by (cases r) (simp_all add: process_tool_call_def Let_def tr1_def res_def)
    moreover have "\<not> is_array res"
      using na by (cases r) (simp_all add: res_def is_array_def)
    ultimately show ?thesis
      by (intro exI [of _ res]
          exI [of _ "[ApprovalAsked (fn_name toolCall) (parsed_args E toolCall), DateNow,
                       ToolServerCall req]"])
        (simp add: tr1_def)
  qed
qed

lemma run_tool_calls_shape:
  "\<exists>results evs. run_tool_calls E onToolApproval tm toolCalls (apiMessages, tr)
       = (apiMessages @ map (\<lambda>(tc, res). tool_message tc res) (zip toolCalls results), tr @ evs)
     \<and> length results = length toolCalls
     \<and> (\<forall>res \<in> set results. \<not> is_array res)
     \<and> (\<forall>e \<in> set evs. \<not> is_ProviderCall e)"
proof (induction toolCalls arbitrary: apiMessages tr)
  case Nil
  show ?case by (simp add: run_tool_calls_def)
next
  case (Cons tc tcs)
  from process_tool_call_shape [of E onToolApproval tm tc apiMessages tr]
  obtain res evs where step: "process_tool_call E onToolApproval tm tc (apiMessages, tr)
       = (apiMessages @ [tool_message tc res], tr @ evs)"
    and res: "\<not> is_array res" and evs: "\<forall>e \<in> set evs. \<not> is_ProviderCall e" by blast
  from Cons.IH [of "apiMessages @ [tool_message tc res]" "tr @ evs"]
  obtain results evs' where rest:
    "run_tool_calls E onToolApproval tm tcs (apiMessages @ [tool_message tc res], tr @ evs)
       = ((apiMessages @ [tool_message tc res])
            @ map (\<lambda>(tc, res). tool_message tc res) (zip tcs results), (tr @ evs) @ evs')"
    and len: "length results = length tcs"
    and ress: "\<forall>res \<in> set results. \<not> is_array res"
    and evs': "\<forall>e \<in> set evs'. \<not> is_ProviderCall e" by blast
  have "run_tool_calls E onToolApproval tm (tc # tcs) (apiMessages, tr)
       = (apiMessages @ map (\<lambda>(tc, res). tool_message tc res) (zip (tc # tcs) (res # results)),
          tr @ (evs @ evs'))"
    using step rest by (simp add: run_tool_calls_def)
  then show ?case
    using len res ress evs evs'
    by (intro exI [of _ "res # results"] exI [of _ "evs @ evs'"]) auto
qed

text \<open>The calls are processed one after the other: the calls that follow start from the
  messages and events that the calls before them left.\<close>

lemma run_tool_calls_sequential:
  "run_tool_calls E onToolApproval tm (first @ rest) st
   = run_tool_calls E onToolApproval tm rest (run_tool_calls E onToolApproval tm first st)"
  by (simp add: run_tool_calls_def)

lemma turn_body_tool_calls:
  assumes call: "callLLMProvider E (activeProvider settings) (active_key settings)
                   (active_model settings) apiMessages (activeToolsDefs settings) settings tr
                 = (Inr (data, payload), tr1)"
    and parse: "parse_response E (activeProvider settings) data tr1
                = (Inr (messageContent, Some toolCalls), tr2)"
    and k: "toolCalls \<noteq> []"
  shows "\<exists>results evs.
      turn_body E onToolApproval settings apiMessages newMessagesGenerated tr
        = (Inr (True, apiMessages @ [assistant_message messageContent toolCalls]
                      @ map (\<lambda>(tc, res). tool_message tc res) (zip toolCalls results),
                newMessagesGenerated), tr2 @ evs)
      \<and> length results = length toolCalls
      \<and> (\<forall>res \<in> set results. \<not> is_array res)
      \<and> (\<forall>e \<in> set evs. \<not> is_ProviderCall e)"
proof -
  from run_tool_calls_shape [of E onToolApproval "toolMap settings" toolCalls
      "apiMessages @ [assistant_message messageContent toolCalls]" tr2]
  obtain results evs where run:
    "run_tool_calls E onToolApproval (toolMap settings) toolCalls
       (apiMessages @ [assistant_message messageContent toolCalls], tr2)
     = ((apiMessages @ [assistant_message messageContent toolCalls])
          @ map (\<lambda>(tc, res). tool_message tc res) (zip toolCalls results), tr2 @ evs)"
    and rest: "length results = length toolCalls" "\<forall>res \<in> set results. \<not> is_array res"
      "\<forall>e \<in> set evs. \<not> is_ProviderCall e" by blast
  from k obtain tc tcs where tcs: "toolCalls = tc # tcs" by (cases toolCalls) auto
  have "turn_body E onToolApproval settings apiMessages newMessagesGenerated tr
        = (Inr (True, apiMessages @ [assistant_message messageContent toolCalls]
                      @ map (\<lambda>(tc, res). tool_message tc res) (zip toolCalls results),
                newMessagesGenerated), tr2 @ evs)"
    using call parse run unfolding turn_body_def tcs by simp
  with rest show ?thesis by blast
qed

lemmas scenario_defs = openai_settings_def no_settings_def local_server_def search_tool_def
  search_call_def agent_env_def tool_turn_data_def final_data_def chat_reply_def search_reply_def
  http_reply_def rpc_result_def scenario_parse_def first_request_def first_payload_def
  looping_env_def

lemmas run_defs = active_key_def active_model_def or_default_def toolMap_def activeToolsDefs_def
  register_server_def register_tool_def toolmap_set_def empty_toolmap_def tool_def_def
  callLLMProvider_def chat_url_def parse_response_def ok_def Let_def
  process_tool_call_def run_tool_calls_def toolmap_get_def parsed_args_def opt_str_def
  executeMCPToolCall_def Date_now_def tools_call_request_def tools_call_result_def
  mcp_result_def mcp_part_text_def js_join_def turn_body_def

lemmas send_defs = sendMessage_def send_loop.simps initial_apiMessages_def systemInstruction_def
  finalMsg_def finalContent_def usage_of_def num_or_def limitMsg_def assistant_message_def
  js_of_tool_call_def tool_message_def decimal.simps digit_chars

text \<open>
  C1. When the provider call returns a response and its parsing yields the tool calls
  \<open>toolCalls\<close>, at least one, the turn appends the assistant message and then exactly one
  tool message per call, in the order of the calls, each with the role \<^verbatim>\<open>tool\<close> and the
  \<^verbatim>\<open>tool_call_id\<close> of its call. No provider call happens while the calls are processed,
  and the next iteration of the loop, which makes the next provider call, starts from the
  history with all of them appended.
\<close>

theorem tool_calls_answered_in_order:
  assumes call: "callLLMProvider E (activeProvider settings) (active_key settings)
                   (active_model settings) apiMessages (activeToolsDefs settings) settings tr
                 = (Inr (data, payload), tr1)"
    and parse: "parse_response E (activeProvider settings) data tr1
                = (Inr (messageContent, Some toolCalls), tr2)"
    and k: "toolCalls \<noteq> []"
  shows "\<exists>toolMsgs evs.
      turn_body E onToolApproval settings apiMessages newMessagesGenerated tr
        = (Inr (True, apiMessages @ [assistant_message messageContent toolCalls] @ toolMsgs,
                newMessagesGenerated), tr2 @ evs)
      \<and> length toolMsgs = length toolCalls
      \<and> map (\<lambda>m. get m ''role'') toolMsgs = map (\<lambda>tc. JStr ''tool'') toolCalls
      \<and> map (\<lambda>m. get m ''tool_call_id'') toolMsgs = map (\<lambda>tc. JStr (tc_id tc)) toolCalls
      \<and> (\<forall>e \<in> set evs. \<not> is_ProviderCall e)
      \<and> (turns < 5 \<longrightarrow>
           send_loop E onToolApproval settings True turns apiMessages newMessagesGenerated tr
           = send_loop E onToolApproval settings True (Suc turns)
               (apiMessages @ [assistant_message messageContent toolCalls] @ toolMsgs)
               newMessagesGenerated (tr2 @ evs))"
proof -
  from turn_body_tool_calls [OF call parse k, of onToolApproval newMessagesGenerated]
  obtain results evs where
    body0: "turn_body E onToolApproval settings apiMessages newMessagesGenerated tr
        = (Inr (True, apiMessages @ [assistant_message messageContent toolCalls]
                      @ map (\<lambda>(tc, res). tool_message tc res) (zip toolCalls results),
                newMessagesGenerated), tr2 @ evs)"
    and len: "length results = length toolCalls"
    and evs: "\<forall>e \<in> set evs. \<not> is_ProviderCall e" by blast
  define toolMsgs where "toolMsgs = map (\<lambda>(tc, res). tool_message tc res) (zip toolCalls results)"
  have body: "turn_body E onToolApproval settings apiMessages newMessagesGenerated tr
        = (Inr (True, apiMessages @ [assistant_message messageContent toolCalls] @ toolMsgs,
                newMessagesGenerated), tr2 @ evs)"
    using body0 by (simp add: toolMsgs_def)
  have l: "length toolMsgs = length toolCalls"
    using len by (simp add: toolMsgs_def)
  have roles: "map (\<lambda>m. get m ''role'') toolMsgs = map (\<lambda>tc. JStr ''tool'') toolCalls"
    using len unfolding toolMsgs_def
    by (induction toolCalls results rule: list_induct2') (simp_all add: tool_message_def get_def)
  have ids: "map (\<lambda>m. get m ''tool_call_id'') toolMsgs = map (\<lambda>tc. JStr (tc_id tc)) toolCalls"
    using len unfolding toolMsgs_def
    by (induction toolCalls results rule: list_induct2') (simp_all add: tool_message_def get_def)
  have loop: "turns < 5 \<longrightarrow>
           send_loop E onToolApproval settings True turns apiMessages newMessagesGenerated tr
           = send_loop E onToolApproval settings True (Suc turns)
               (apiMessages @ [assistant_message messageContent toolCalls] @ toolMsgs)
               newMessagesGenerated (tr2 @ evs)"
    using body by (subst send_loop.simps) simp
  from body l roles ids evs loop show ?thesis by blast
qed

lemma first_call_returns:
  "callLLMProvider (agent_env 1) (activeProvider openai_settings) (active_key openai_settings)
     (active_model openai_settings) (initial_apiMessages openai_settings [] ''2+2?'' [])
     (activeToolsDefs openai_settings) openai_settings []
   = (Inr (tool_turn_data, first_payload), [ProviderCall first_request])"
  by (simp add: scenario_defs run_defs)

lemma first_response_parsed:
  "parse_response (agent_env 1) (activeProvider openai_settings) tool_turn_data
     [ProviderCall first_request]
   = (Inr ([], Some [search_call]), [ProviderCall first_request])"
  by (simp add: scenario_defs run_defs)

theorem tool_calls_answered_in_order_witness:
  "callLLMProvider (agent_env 1) (activeProvider openai_settings) (active_key openai_settings)
     (active_model openai_settings) (initial_apiMessages openai_settings [] ''2+2?'' [])
     (activeToolsDefs openai_settings) openai_settings []
   = (Inr (tool_turn_data, first_payload), [ProviderCall first_request])
   \<and> parse_response (agent_env 1) (activeProvider openai_settings) tool_turn_data
       [ProviderCall first_request]
     = (Inr ([], Some [search_call]), [ProviderCall first_request])
   \<and> [search_call] \<noteq> []
   \<and> turn_body (agent_env 1) (\<lambda>tr name args. True) openai_settings
       (initial_apiMessages openai_settings [] ''2+2?'' []) [] []
     = (Inr (True,
             initial_apiMessages openai_settings [] ''2+2?'' []
             @ [assistant_message [] [search_call]]
             @ [[(''role'', JStr ''tool''), (''tool_call_id'', JStr ''a''),
                 (''name'', JStr ''search''), (''content'', JStr ''result-text'')]], []),
        [ProviderCall first_request, ApprovalAsked ''search'' (JObj []), DateNow,
         ToolServerCall (tools_call_request (AServer local_server) ''search'' (JObj [])
                           1700000000002)])"
proof -
  have k: "[search_call] \<noteq> []" by simp
  show ?thesis
    using first_call_returns first_response_parsed
      tool_calls_answered_in_order [OF first_call_returns first_response_parsed k, of "\<lambda>tr name args. True" "[]" 0]
    by (simp add: scenario_defs run_defs tool_message_def)
qed

subsection \<open>The turn budget\<close>

lemma mapE_ex: "\<forall>x \<in> set xs. \<exists>y. f x = Inr y \<Longrightarrow> \<exists>ys. mapE f xs = Inr ys"
  by (induction xs) auto

lemma gemini_content_ok:
  assumes "\<forall>cs. get m ''content'' = JArr cs \<longrightarrow> (\<forall>c \<in> set cs. \<exists>ps. gemini_parts_of c = Inr ps)"
  shows "\<exists>v. gemini_content m = Inr v"
proof (cases "get m ''content''")
  case (JArr cs)
  with assms have "\<forall>c \<in> set cs. \<exists>ps. gemini_parts_of c = Inr ps" by simp
  from mapE_ex [OF this] obtain pss where "mapE gemini_parts_of cs = Inr pss" by blast
  with JArr show ?thesis by (simp add: gemini_content_def)
qed (simp_all add: gemini_content_def)

lemma buildGeminiRequest_ok:
  assumes "gemini_ok msgs"
  shows "\<exists>p. buildGeminiRequest msgs tools = Inr p"
proof -
  have "\<forall>m \<in> set (filter (\<lambda>m. get m ''role'' \<noteq> JStr ''system'') msgs). \<exists>v. gemini_content m = Inr v"
    using assms by (auto simp: gemini_ok_def intro!: gemini_content_ok)
  from mapE_ex [OF this] obtain contents
    where "mapE gemini_content (filter (\<lambda>m. get m ''role'' \<noteq> JStr ''system'') msgs) = Inr contents"
    by blast
  then show ?thesis by (simp add: buildGeminiRequest_def Let_def)
qed

lemma contentArray_ok:
  assumes "contentArray text atts = JArr cs" "c \<in> set cs"
  shows "\<exists>ps. gemini_parts_of c = Inr ps"
  using assms
  by (auto simp: contentArray_def gemini_parts_of_def js_opt_prop_def Let_def
      split: option.splits)

lemma history_message_ok:
  assumes "m' \<in> set (history_message m)" "get m' ''content'' = JArr cs" "c \<in> set cs"
  shows "\<exists>ps. gemini_parts_of c = Inr ps"
  using assms
  by (auto simp: history_message_def get_def content_val_def contentArray_ok
      split: if_splits option.splits list.splits)

lemma initial_gemini_ok: "gemini_ok (initial_apiMessages settings history currentMessage attachments)"
  unfolding gemini_ok_def initial_apiMessages_def
  by (auto simp: get_def history_message_ok contentArray_ok split: if_splits)

lemma gemini_ok_append:
  "gemini_ok (xs @ ys) = (gemini_ok xs \<and> gemini_ok ys)"
  by (auto simp: gemini_ok_def)

lemma gemini_ok_assistant: "gemini_ok [assistant_message content toolCalls]"
  by (simp add: gemini_ok_def assistant_message_def get_def)

lemma gemini_ok_tool_messages:
  "\<forall>res \<in> set results. \<not> is_array res \<Longrightarrow>
   gemini_ok (map (\<lambda>(tc, res). tool_message tc res) (zip toolCalls results))"
  by (auto simp: gemini_ok_def tool_message_def get_def is_array_def dest!: set_zip_rightD)

lemma gemini_tool_calls_shape:
  "\<exists>tcs. gemini_tool_calls E fcs tr = (tcs, tr @ replicate (length fcs) DateNow)
     \<and> length tcs = length fcs"
proof (induction fcs arbitrary: tr)
  case Nil
  show ?case by simp
next
  case (Cons fc fcs)
  from Cons.IH [of "tr @ [DateNow]"] obtain tcs
    where "gemini_tool_calls E fcs (tr @ [DateNow])
           = (tcs, (tr @ [DateNow]) @ replicate (length fcs) DateNow)"
      and "length tcs = length fcs" by blast
  then show ?case
    by (simp add: Date_now_def Let_def replicate_app_Cons_same)
qed

lemma map_filter_nonempty:
  "\<exists>x \<in> set xs. f x \<noteq> None \<Longrightarrow> List.map_filter f xs \<noteq> []"
  by (induction xs) (auto simp: List.map_filter_simps split: option.splits)

lemma carries_openai:
  assumes "provider \<noteq> Gemini" "carries_tool_calls provider data"
  shows "\<exists>choice cs messageData tc tcs.
           d_choices data = Some (choice # cs) \<and> ch_message choice = Some messageData
           \<and> cm_tool_calls messageData = Some (tc # tcs)"
proof (cases "d_choices data")
  case None
  with assms show ?thesis by (simp add: carries_tool_calls_def)
next
  case (Some chs)
  note dc = Some
  show ?thesis
  proof (cases chs)
    case Nil
    with dc assms show ?thesis by (simp add: carries_tool_calls_def)
  next
    case (Cons choice cs)
    note ch = Cons
    show ?thesis
    proof (cases "ch_message choice")
      case None
      with dc ch assms show ?thesis by (simp add: carries_tool_calls_def)
    next
      case (Some messageData)
      note md = Some
      show ?thesis
      proof (cases "cm_tool_calls messageData")
        case None
        with dc ch md assms show ?thesis by (simp add: carries_tool_calls_def)
      next
        case (Some tcs)
        note tc = Some
        show ?thesis
        proof (cases tcs)
          case Nil
          with dc ch md tc assms show ?thesis by (simp add: carries_tool_calls_def)
        next
          case (Cons t ts)
          with dc ch md tc show ?thesis by simp
        qed
      qed
    qed
  qed
qed

lemma carries_gemini:
  assumes "carries_tool_calls Gemini data"
  shows "\<exists>parts cs. d_candidates data = Some (Some parts # cs)
           \<and> (\<exists>p \<in> set parts. part_functionCall p \<noteq> None)"
proof (cases "d_candidates data")
  case None
  with assms show ?thesis by (simp add: carries_tool_calls_def)
next
  case (Some cands)
  note dc = Some
  show ?thesis
  proof (cases cands)
    case Nil
    with dc assms show ?thesis by (simp add: carries_tool_calls_def)
  next
    case (Cons cand cs)
    note cn = Cons
    show ?thesis
    proof (cases cand)
      case None
      with dc cn assms show ?thesis by (simp add: carries_tool_calls_def)
    next
      case (Some parts)
      with dc cn assms show ?thesis by (simp add: carries_tool_calls_def)
    qed
  qed
qed

lemma always_tool_calls_fetch:
  assumes "always_tool_calls E settings"
    and "h_url req = chat_url (activeProvider settings) (active_key settings)
                       (active_model settings) settings"
  shows "\<exists>r data. fetch E tr req = Responded r \<and> ok r \<and> body_chat r = Some data
           \<and> carries_tool_calls (activeProvider settings) data"
proof -
  from assms have c: "(case fetch E tr req of
           Responded r \<Rightarrow>
             ok r \<and> (case body_chat r of
                       Some data \<Rightarrow> carries_tool_calls (activeProvider settings) data
                     | None \<Rightarrow> False)
         | Rejected e \<Rightarrow> False)"
    unfolding always_tool_calls_def by blast
  show ?thesis
  proof (cases "fetch E tr req")
    case (Rejected e)
    with c show ?thesis by simp
  next
    case (Responded r)
    note f = Responded
    show ?thesis
    proof (cases "body_chat r")
      case None
      with c f show ?thesis by simp
    next
      case (Some data)
      with c f show ?thesis by simp
    qed
  qed
qed

lemma parse_response_tools:
  assumes "carries_tool_calls provider data"
  shows "\<exists>content tcs evs. parse_response E provider data tr = (Inr (content, Some tcs), tr @ evs)
           \<and> tcs \<noteq> [] \<and> (\<forall>e \<in> set evs. \<not> is_ProviderCall e)"
proof (cases "provider = Gemini")
  case True
  with carries_gemini [of data] assms obtain parts cs
    where cand: "d_candidates data = Some (Some parts # cs)"
      and fc: "\<exists>p \<in> set parts. part_functionCall p \<noteq> None"
    by blast
  define fcs where "fcs = List.map_filter part_functionCall parts"
  have ne: "fcs \<noteq> []" unfolding fcs_def using fc by (rule map_filter_nonempty)
  from gemini_tool_calls_shape [of E fcs tr] obtain tcs
    where g: "gemini_tool_calls E fcs tr = (tcs, tr @ replicate (length fcs) DateNow)"
      and l: "length tcs = length fcs" by blast
  have tne: "tcs \<noteq> []" using ne l by auto
  have "\<exists>content. parse_response E provider data tr
          = (Inr (content, Some tcs), tr @ replicate (length fcs) DateNow)"
    using True cand ne g
    by (simp add: parse_response_def parseGeminiResponse_def Let_def fcs_def)
  with tne show ?thesis by fastforce
next
  case False
  from carries_openai [OF False assms] obtain choice cs messageData tc tcs where
    "d_choices data = Some (choice # cs)" "ch_message choice = Some messageData"
    "cm_tool_calls messageData = Some (tc # tcs)" by blast
  with False have "\<exists>content. parse_response E provider data tr
      = (Inr (content, Some (tc # tcs)), tr @ [])"
    by (simp add: parse_response_def)
  then show ?thesis by fastforce
qed

lemma callLLMProvider_tools:
  assumes always: "always_tool_calls E settings" and wf: "gemini_ok msgs"
  shows "\<exists>data payload req.
           callLLMProvider E (activeProvider settings) (active_key settings)
             (active_model settings) msgs (activeToolsDefs settings) settings tr
           = (Inr (data, payload), tr @ [ProviderCall req])
           \<and> carries_tool_calls (activeProvider settings) data"
proof -
  define provider where "provider = activeProvider settings"
  define key where "key = active_key settings"
  define model where "model = active_model settings"
  define tools where "tools = activeToolsDefs settings"
  obtain payload where p: "(if provider = Gemini then buildGeminiRequest msgs tools
               else Inr (openai_payload model msgs tools)) = Inr payload"
    using buildGeminiRequest_ok [OF wf, of tools] by (cases "provider = Gemini") auto
  define req where "req = \<lparr>h_method = ''POST'', h_url = chat_url provider key model settings,
      h_headers = [(''Content-Type'', ''application/json'')]
            @ (if provider = Gemini then [] else [(''Authorization'', ''Bearer '' @ key)])
            @ (if provider = OpenRouter then [(''HTTP-Referer'', origin E)] else []),
      h_body = Some payload\<rparr>"
  have "h_url req = chat_url provider key model settings" by (simp add: req_def)
  with always_tool_calls_fetch [OF always, of req tr] obtain r data
    where f: "fetch E tr req = Responded r" "ok r"
      "body_chat r = Some data" "carries_tool_calls provider data"
    unfolding provider_def key_def model_def by blast
  have "callLLMProvider E provider key model msgs tools settings tr
           = (Inr (data, payload), tr @ [ProviderCall req])"
    using p f by (simp add: callLLMProvider_def Let_def req_def)
  with f(4) show ?thesis
    unfolding provider_def key_def model_def tools_def by blast
qed

lemma provider_calls_append [simp]:
  "provider_calls (tr @ evs) = provider_calls tr + provider_calls evs"
  by (simp add: provider_calls_def)

lemma provider_calls_none: "\<forall>e \<in> set evs. \<not> is_ProviderCall e \<Longrightarrow> provider_calls evs = 0"
  by (simp add: provider_calls_def)

lemma turn_always_tools:
  assumes always: "always_tool_calls E settings" and wf: "gemini_ok msgs"
  shows "\<exists>msgs' tr'. turn_body E onToolApproval settings msgs new tr = (Inr (True, msgs', new), tr')
           \<and> gemini_ok msgs' \<and> provider_calls tr' = Suc (provider_calls tr)"
proof -
  from callLLMProvider_tools [OF always wf, of tr] obtain data payload req where
    call: "callLLMProvider E (activeProvider settings) (active_key settings)
             (active_model settings) msgs (activeToolsDefs settings) settings tr
           = (Inr (data, payload), tr @ [ProviderCall req])"
    and carries: "carries_tool_calls (activeProvider settings) data" by blast
  from parse_response_tools [OF carries, of E "tr @ [ProviderCall req]"]
  obtain content tcs evs where
    parse: "parse_response E (activeProvider settings) data (tr @ [ProviderCall req])
            = (Inr (content, Some tcs), (tr @ [ProviderCall req]) @ evs)"
    and ne: "tcs \<noteq> []" and evs: "\<forall>e \<in> set evs. \<not> is_ProviderCall e" by blast
  from turn_body_tool_calls [OF call parse ne, of onToolApproval new]
  obtain results evs' where
    body: "turn_body E onToolApproval settings msgs new tr
        = (Inr (True, msgs @ [assistant_message content tcs]
                      @ map (\<lambda>(tc, res). tool_message tc res) (zip tcs results),
                new), ((tr @ [ProviderCall req]) @ evs) @ evs')"
    and res: "\<forall>res \<in> set results. \<not> is_array res"
    and evs': "\<forall>e \<in> set evs'. \<not> is_ProviderCall e" by blast
  have "gemini_ok (msgs @ [assistant_message content tcs]
                      @ map (\<lambda>(tc, res). tool_message tc res) (zip tcs results))"
    using wf res gemini_ok_assistant [of content tcs] gemini_ok_tool_messages [of results tcs]
    unfolding gemini_ok_append by blast
  moreover have "provider_calls (((tr @ [ProviderCall req]) @ evs) @ evs') = Suc (provider_calls tr)"
    using evs evs' by (simp add: provider_calls_none) (simp add: provider_calls_def)
  ultimately show ?thesis using body by blast
qed

lemma loop_always_tools:
  assumes always: "always_tool_calls E settings"
  shows "gemini_ok msgs \<Longrightarrow> turns \<le> 5 \<Longrightarrow> n = 5 - turns \<Longrightarrow>
         \<exists>msgs' tr'. send_loop E onToolApproval settings True turns msgs new tr
                        = (Inr (5, msgs', new), tr')
           \<and> provider_calls tr' = provider_calls tr + n"
proof (induction n arbitrary: turns msgs tr)
  case 0
  then have "turns = 5" by simp
  then show ?case by (subst send_loop.simps) simp
next
  case (Suc n)
  then have lt: "turns < 5" by simp
  from turn_always_tools [OF always Suc.prems(1), of onToolApproval new tr]
  obtain msgs' tr' where
    body: "turn_body E onToolApproval settings msgs new tr = (Inr (True, msgs', new), tr')"
    and wf': "gemini_ok msgs'" and cnt: "provider_calls tr' = Suc (provider_calls tr)" by blast
  have le: "Suc turns \<le> 5" using lt by simp
  have n: "n = 5 - Suc turns" using Suc.prems(3) by arith
  from Suc.IH [OF wf' le n, of tr']
  obtain msgs'' tr'' where
    rest: "send_loop E onToolApproval settings True (Suc turns) msgs' new tr'
           = (Inr (5, msgs'', new), tr'')"
    and cnt': "provider_calls tr'' = provider_calls tr' + n" by blast
  have "send_loop E onToolApproval settings True turns msgs new tr = (Inr (5, msgs'', new), tr'')"
    using lt body rest by (subst send_loop.simps) simp
  with cnt cnt' show ?case by auto
qed

text \<open>
  C2. With a credential present and a provider that answers every chat request with a
  response carrying a tool call, \<open>sendMessage\<close> returns; it makes exactly five provider
  calls, and it produces one message, whose content is the limit text.
\<close>

theorem turn_limit_after_five_round_trips:
  assumes key: "active_key settings \<noteq> []"
    and always: "always_tool_calls E settings"
  shows "\<exists>msg tr'.
      sendMessage E settings history currentMessage attachments onToolApproval tr = (Inr [msg], tr')
      \<and> msg_role msg = Model \<and> msg_content msg = Some limit_text
      \<and> provider_calls tr' = provider_calls tr + 5"
proof -
  have "(5::nat) = 5 - 0" by simp
  from loop_always_tools [OF always initial_gemini_ok _ this, where onToolApproval = onToolApproval
      and new = "[]" and tr = tr, of settings history currentMessage attachments]
  obtain msgs' tr' where
    loop: "send_loop E onToolApproval settings True 0
             (initial_apiMessages settings history currentMessage attachments) [] tr
           = (Inr (5, msgs', []), tr')"
    and cnt: "provider_calls tr' = provider_calls tr + 5" by auto
  obtain msg tr'' where lim: "limitMsg E tr' = (msg, tr'')" by (cases "limitMsg E tr'")
  then have msg: "msg_role msg = Model" "msg_content msg = Some limit_text"
    and tr'': "tr'' = tr' @ [DateNow, DateNow]"
    by (auto simp: limitMsg_def Date_now_def Let_def split: prod.splits)
  have "sendMessage E settings history currentMessage attachments onToolApproval tr
        = (Inr [msg], tr'')"
    using key loop lim by (simp add: sendMessage_def)
  moreover have "provider_calls tr'' = provider_calls tr + 5"
    using cnt tr'' by (simp add: provider_calls_def)
  ultimately show ?thesis using msg by blast
qed

theorem turn_limit_after_five_round_trips_witness:
  "active_key openai_settings \<noteq> [] \<and> always_tool_calls looping_env openai_settings
   \<and> (\<exists>msg tr'.
        sendMessage looping_env openai_settings [] ''2+2?'' [] (\<lambda>tr name args. True) []
          = (Inr [msg], tr')
        \<and> msg_role msg = Model \<and> msg_content msg = Some limit_text
        \<and> provider_calls tr' = provider_calls [] + 5)"
proof -
  have key: "active_key openai_settings \<noteq> []"
    by (simp add: active_key_def openai_settings_def no_settings_def)
  have always: "always_tool_calls looping_env openai_settings"
    by (simp add: always_tool_calls_def looping_env_def openai_settings_def no_settings_def
        local_server_def chat_url_def active_key_def active_model_def chat_reply_def ok_def
        carries_tool_calls_def tool_turn_data_def)
  from turn_limit_after_five_round_trips [OF key always, of "[]" "''2+2?''" "[]"
      "\<lambda>tr name args. True" "[]"] key always
  show ?thesis by blast
qed

subsection \<open>The final answer\<close>

text \<open>
  C3. The claim fails when the response without tool calls is the fifth of the invocation:
  the loop ends with \<^verbatim>\<open>turns\<close> equal to 5, and the check \<^verbatim>\<open>turns >= 5\<close> after the loop
  appends the limit message behind the final answer. Four responses with a tool call and
  then the answer \<^verbatim>\<open>4\<close> produce two messages. (When the answer is the fourth response,
  one message is produced: \<open>final_answer_on_fourth_turn\<close>.)
\<close>

theorem final_answer_on_fifth_turn:
  "(case sendMessage (agent_env 4) openai_settings [] ''2+2?'' [] (\<lambda>tr name args. True) [] of
      (Inr newMessages, tr) \<Rightarrow>
        map msg_content newMessages = [Some ''4'', Some limit_text]
        \<and> map msg_role newMessages = [Model, Model]
        \<and> length (filter is_ProviderCall tr) = 5
    | (Inl e, tr) \<Rightarrow> False)"
  by (simp add: scenario_defs run_defs send_defs)

lemma final_answer_on_fourth_turn:
  "(case sendMessage (agent_env 3) openai_settings [] ''2+2?'' [] (\<lambda>tr name args. True) [] of
      (Inr newMessages, tr) \<Rightarrow>
        map msg_content newMessages = [Some ''4'']
        \<and> length (filter is_ProviderCall tr) = 4
    | (Inl e, tr) \<Rightarrow> False)"
  by (simp add: scenario_defs run_defs send_defs)

subsection \<open>System messages of the history\<close>

lemma js_opt_prop_JObj: "js_opt_prop (JObj kvs) p = get kvs p"
  by (simp add: js_opt_prop_def get_def)

lemma get_Nil: "get [] p = JUndef"
  by (simp add: get_def)

lemma get_Cons: "get ((k, v) # kvs) p = (if p = k then v else get kvs p)"
  by (simp add: get_def)

lemma history_message_System: "msg_role m = System \<Longrightarrow> history_message m = []"
  by (simp add: history_message_def)

lemma history_filter:
  "concat (map history_message (filter (\<lambda>m. msg_role m \<noteq> System) history))
   = concat (map history_message history)"
  by (induction history) (simp_all add: history_message_System)

lemma initial_apiMessages_filter:
  "initial_apiMessages settings (filter (\<lambda>m. msg_role m \<noteq> System) history) currentMessage attachments
   = initial_apiMessages settings history currentMessage attachments"
  by (simp add: initial_apiMessages_def history_filter)

lemma history_message_roles:
  "m' \<in> set (history_message m) \<Longrightarrow> get m' ''role'' \<noteq> JStr ''system''"
  by (auto simp: history_message_def get_def split: if_splits option.splits list.splits)

lemma system_messages_history:
  "system_messages (concat (map history_message history)) = []"
  by (auto simp: system_messages_def filter_empty_conv dest: history_message_roles)

lemma system_messages_append [simp]:
  "system_messages (xs @ ys) = system_messages xs @ system_messages ys"
  by (simp add: system_messages_def)

lemma system_messages_initial:
  "system_messages (initial_apiMessages settings history currentMessage attachments)
   = [system_message settings]"
  unfolding initial_apiMessages_def system_messages_append system_messages_history
  by (simp add: system_messages_def system_message_def get_def)

lemma system_messages_assistant: "system_messages [assistant_message content tcs] = []"
  by (simp add: system_messages_def assistant_message_def get_def)

lemma system_messages_tools:
  "system_messages (map (\<lambda>(tc, res). tool_message tc res) (zip tcs results)) = []"
  by (auto simp: system_messages_def filter_empty_conv tool_message_def get_def)

lemma systemInstruction_nonempty: "systemInstruction settings \<noteq> []"
  by (simp add: systemInstruction_def or_default_def default_system_prompt_def)

lemma sent_openai:
  assumes "provider \<noteq> Gemini" "system_messages msgs = [system_message settings]"
    "h_body req = Some (openai_payload model msgs tools)"
  shows "sent_system_instructions provider req = [JStr (systemInstruction settings)]"
proof -
  have f: "filter (\<lambda>m. js_opt_prop m ''role'' = JStr ''system'') (map JObj msgs)
        = map JObj (system_messages msgs)"
    by (induction msgs) (simp_all add: system_messages_def js_opt_prop_JObj)
  show ?thesis
    using assms(1,3)
    by (simp add: sent_system_instructions_def openai_payload_def js_opt_prop_JObj get_Cons
        get_Nil f assms(2) system_message_def)
qed

lemma find_filter: "find P xs = (case filter P xs of [] \<Rightarrow> None | x # ys \<Rightarrow> Some x)"
  by (induction xs) simp_all

lemma sent_gemini:
  assumes "buildGeminiRequest msgs tools = Inr payload"
    "system_messages msgs = [system_message settings]" "h_body req = Some payload"
  shows "sent_system_instructions Gemini req = [JStr (systemInstruction settings)]"
proof -
  have fnd: "find (\<lambda>m. get m ''role'' = JStr ''system'') msgs = Some (system_message settings)"
    using assms(2) by (simp add: find_filter system_messages_def)
  from assms(1) obtain contents where
    "payload = JObj ([(''contents'', JArr contents)]
               @ [(''systemInstruction'',
                   JObj [(''parts'', JArr [JObj [(''text'', JStr (systemInstruction settings))]])])]
               @ (if length tools > 0
                  then [(''tools'', JArr [JObj [(''functionDeclarations'',
                                                 JArr (map (\<lambda>t. get t ''function'') tools))]])]
                  else []))"
    unfolding buildGeminiRequest_def
    by (auto dest!: bindE_Inr
        simp: fnd system_message_def get_Cons get_Nil systemInstruction_nonempty Let_def)
  with assms(3) show ?thesis
    by (simp add: sent_system_instructions_def js_opt_prop_JObj get_Cons get_Nil)
qed

lemma only_synthesized_append [simp]:
  "only_synthesized settings (xs @ ys) = (only_synthesized settings xs \<and> only_synthesized settings ys)"
  by (auto simp: only_synthesized_def)

lemma only_synthesized_none:
  "\<forall>e \<in> set evs. \<not> is_ProviderCall e \<Longrightarrow> only_synthesized settings evs"
  by (auto simp: only_synthesized_def)

lemma provider_tail_trace:
  "snd (case res of
          Rejected e \<Rightarrow> (Inl e, t)
        | Responded response \<Rightarrow>
            if \<not> ok response then
              (case body_json response of
                 None \<Rightarrow> (a, t)
               | Some err \<Rightarrow> (case api_error_message err of Inl e \<Rightarrow> (Inl e, t)
                              | Inr m \<Rightarrow> (b m, t)))
            else (case body_chat response of None \<Rightarrow> (c, t) | Some d \<Rightarrow> (f d, t))) = t"
proof (cases res)
  case (Rejected e)
  then show ?thesis by simp
next
  case (Responded response)
  show ?thesis
  proof (cases "ok response")
    case True
    with Responded show ?thesis by (cases "body_chat response") simp_all
  next
    case False
    show ?thesis
    proof (cases "body_json response")
      case None
      with Responded False show ?thesis by simp
    next
      case (Some err)
      with Responded False show ?thesis by (cases "api_error_message err") simp_all
    qed
  qed
qed

lemma callLLMProvider_events:
  assumes "callLLMProvider E p k m msgs tools settings tr = (r, tr1)"
  shows "tr1 = tr \<or>
         (\<exists>req payload. tr1 = tr @ [ProviderCall req] \<and> h_body req = Some payload
            \<and> (if p = Gemini then buildGeminiRequest msgs tools
                else Inr (openai_payload m msgs tools)) = Inr payload)"
proof (cases "if p = Gemini then buildGeminiRequest msgs tools
              else Inr (openai_payload m msgs tools)")
  case (Inl e)
  then have "callLLMProvider E p k m msgs tools settings tr = (Inl e, tr)"
    unfolding callLLMProvider_def Let_def by (simp only: sum.case)
  with assms show ?thesis by simp
next
  case (Inr payload)
  define req where "req = \<lparr>h_method = ''POST'', h_url = chat_url p k m settings,
      h_headers = [(''Content-Type'', ''application/json'')]
            @ (if p = Gemini then [] else [(''Authorization'', ''Bearer '' @ k)])
            @ (if p = OpenRouter then [(''HTTP-Referer'', origin E)] else []),
      h_body = Some payload\<rparr>"
  have "snd (callLLMProvider E p k m msgs tools settings tr) = tr @ [ProviderCall req]"
    unfolding callLLMProvider_def Let_def Inr sum.case req_def [symmetric]
    by (rule provider_tail_trace)
  with assms have "tr1 = tr @ [ProviderCall req]" by simp
  moreover have "h_body req = Some payload" by (simp add: req_def)
  ultimately show ?thesis using Inr by blast
qed

lemma callLLMProvider_system:
  assumes inv: "system_messages msgs = [system_message settings]"
    and call: "callLLMProvider E (activeProvider settings) k m msgs tools settings tr = (r, tr1)"
  shows "\<exists>evs. tr1 = tr @ evs \<and> only_synthesized settings evs"
proof -
  from callLLMProvider_events [OF call]
  consider "tr1 = tr"
    | req payload where "tr1 = tr @ [ProviderCall req]" "h_body req = Some payload"
        "(if activeProvider settings = Gemini then buildGeminiRequest msgs tools
          else Inr (openai_payload m msgs tools)) = Inr payload"
    by blast
  then show ?thesis
  proof cases
    case 1
    then have "tr1 = tr @ []" by simp
    moreover have "only_synthesized settings []" by (simp add: only_synthesized_def)
    ultimately show ?thesis by blast
  next
    case 2
    have "sent_system_instructions (activeProvider settings) req
            = [JStr (systemInstruction settings)]"
    proof (cases "activeProvider settings = Gemini")
      case True
      with 2(3) have "buildGeminiRequest msgs tools = Inr payload" by simp
      from sent_gemini [OF this inv 2(2)] True show ?thesis by simp
    next
      case False
      with 2(3) have "payload = openai_payload m msgs tools" by simp
      with 2(2) have "h_body req = Some (openai_payload m msgs tools)" by simp
      from sent_openai [OF False inv this] show ?thesis .
    qed
    then have "only_synthesized settings [ProviderCall req]"
      by (simp add: only_synthesized_def)
    with 2(1) show ?thesis by blast
  qed
qed

lemma parse_response_events:
  assumes "parse_response E p d tr = (r, tr')"
  shows "\<exists>evs. tr' = tr @ evs \<and> (\<forall>e \<in> set evs. \<not> is_ProviderCall e)"
proof (cases "p = Gemini")
  case True
  define fcs where "fcs = List.map_filter part_functionCall
      (case (case d_candidates d of Some (c # cs) \<Rightarrow> c | _ \<Rightarrow> None) of Some ps \<Rightarrow> ps | None \<Rightarrow> [])"
  from gemini_tool_calls_shape [of E fcs tr] obtain tcs
    where g: "gemini_tool_calls E fcs tr = (tcs, tr @ replicate (length fcs) DateNow)" by blast
  have "snd (parse_response E p d tr) = tr \<or>
        snd (parse_response E p d tr) = tr @ replicate (length fcs) DateNow"
    using True g
    by (simp add: parse_response_def parseGeminiResponse_def Let_def fcs_def)
  with assms have "tr' = tr @ [] \<or> tr' = tr @ replicate (length fcs) DateNow" by simp
  then show ?thesis by (elim disjE) (intro exI conjI, assumption, simp)+
next
  case False
  then have "snd (parse_response E p d tr) = tr"
    by (simp add: parse_response_def split: option.splits list.splits)
  with assms have "tr' = tr @ []" by simp
  then show ?thesis by (intro exI conjI, assumption, simp)
qed

lemma finalMsg_events:
  assumes "finalMsg E p m d pl c tr = (msg, tr')"
  shows "\<exists>evs. tr' = tr @ evs \<and> (\<forall>e \<in> set evs. \<not> is_ProviderCall e)"
proof -
  have "snd (finalMsg E p m d pl c tr) = tr @ [DateNow, DateNow]
        \<or> snd (finalMsg E p m d pl c tr) = tr @ [DateNow, DateNow, DateNow]"
    by (simp add: finalMsg_def Date_now_def Let_def split: option.splits)
  with assms have "tr' = tr @ [DateNow, DateNow] \<or> tr' = tr @ [DateNow, DateNow, DateNow]"
    by simp
  then show ?thesis by (elim disjE) (intro exI conjI, assumption, simp)+
qed

lemma turn_body_system:
  assumes inv: "system_messages msgs = [system_message settings]"
    and body: "turn_body E onToolApproval settings msgs new tr = (r, tr')"
  shows "(\<exists>evs. tr' = tr @ evs \<and> only_synthesized settings evs)
         \<and> (\<forall>keepGoing msgs' new'. r = Inr (keepGoing, msgs', new')
               \<longrightarrow> system_messages msgs' = [system_message settings])"
proof -
  obtain r1 tr1 where call:
    "callLLMProvider E (activeProvider settings) (active_key settings) (active_model settings)
       msgs (activeToolsDefs settings) settings tr = (r1, tr1)"
    by (cases "callLLMProvider E (activeProvider settings) (active_key settings)
                 (active_model settings) msgs (activeToolsDefs settings) settings tr")
  from callLLMProvider_system [OF inv call] obtain evs1
    where tr1: "tr1 = tr @ evs1" and ok1: "only_synthesized settings evs1" by blast
  show ?thesis
  proof (cases r1)
    case (Inl e)
    with call body have "r = Inl e" "tr' = tr1" by (simp_all add: turn_body_def)
    with tr1 ok1 show ?thesis by blast
  next
    case (Inr dp)
    obtain data payload where dp: "dp = (data, payload)" by (cases dp)
    obtain r2 tr2 where parse:
      "parse_response E (activeProvider settings) data tr1 = (r2, tr2)"
      by (cases "parse_response E (activeProvider settings) data tr1")
    from parse_response_events [OF parse] obtain evs2
      where tr2: "tr2 = tr1 @ evs2" and no2: "\<forall>e \<in> set evs2. \<not> is_ProviderCall e" by blast
    have ok2: "only_synthesized settings (evs1 @ evs2)"
      using ok1 only_synthesized_none [OF no2] by simp
    show ?thesis
    proof (cases r2)
      case (Inl e)
      with call Inr dp parse body have "r = Inl e" "tr' = tr2" by (simp_all add: turn_body_def)
      with tr1 tr2 ok2 show ?thesis by auto
    next
      case (Inr ct)
      note r2 = Inr
      obtain messageContent toolCalls where ct: "ct = (messageContent, toolCalls)" by (cases ct)
      have final: "toolCalls = None \<or> toolCalls = Some [] \<Longrightarrow> ?thesis"
      proof -
        assume nt: "toolCalls = None \<or> toolCalls = Some []"
        obtain msg tr3 where fm:
          "finalMsg E (activeProvider settings) (active_model settings) data payload
             (finalContent (activeProvider settings) data messageContent) tr2 = (msg, tr3)"
          by (cases "finalMsg E (activeProvider settings) (active_model settings) data payload
             (finalContent (activeProvider settings) data messageContent) tr2")
        from finalMsg_events [OF fm] obtain evs3
          where tr3: "tr3 = tr2 @ evs3" and no3: "\<forall>e \<in> set evs3. \<not> is_ProviderCall e" by blast
        have "turn_body E onToolApproval settings msgs new tr = (Inr (False, msgs, new @ [msg]), tr3)"
          using call \<open>r1 = Inr dp\<close> dp parse r2 ct nt fm
          by (auto simp: turn_body_def)
        with body have "r = Inr (False, msgs, new @ [msg])" "tr' = tr3" by simp_all
        moreover have "only_synthesized settings ((evs1 @ evs2) @ evs3)"
          using ok2 only_synthesized_none [OF no3] by simp
        ultimately show ?thesis using tr1 tr2 tr3 inv by auto
      qed
      show ?thesis
      proof (cases toolCalls)
        case None
        with final show ?thesis by simp
      next
        case (Some tcs)
        show ?thesis
        proof (cases "tcs = []")
          case True
          with Some final show ?thesis by simp
        next
          case False
          have call': "callLLMProvider E (activeProvider settings) (active_key settings)
               (active_model settings) msgs (activeToolsDefs settings) settings tr
             = (Inr (data, payload), tr1)"
            using call \<open>r1 = Inr dp\<close> dp by simp
          have parse': "parse_response E (activeProvider settings) data tr1
             = (Inr (messageContent, Some tcs), tr2)"
            using parse r2 ct Some by simp
          from turn_body_tool_calls [OF call' parse' False, of onToolApproval new]
          obtain results evs3 where
            tb: "turn_body E onToolApproval settings msgs new tr
                 = (Inr (True, msgs @ [assistant_message messageContent tcs]
                      @ map (\<lambda>(tc, res). tool_message tc res) (zip tcs results), new),
                    tr2 @ evs3)"
            and no3: "\<forall>e \<in> set evs3. \<not> is_ProviderCall e" by blast
          have sys: "system_messages (msgs @ [assistant_message messageContent tcs]
                      @ map (\<lambda>(tc, res). tool_message tc res) (zip tcs results))
                     = [system_message settings]"
            unfolding system_messages_append system_messages_assistant system_messages_tools inv
            by simp
          have "only_synthesized settings ((evs1 @ evs2) @ evs3)"
            using ok2 only_synthesized_none [OF no3] by simp
          moreover from tb body have "r = Inr (True, msgs @ [assistant_message messageContent tcs]
                      @ map (\<lambda>(tc, res). tool_message tc res) (zip tcs results), new)"
            "tr' = tr2 @ evs3" by simp_all
          ultimately show ?thesis using tr1 tr2 sys by auto
        qed
      qed
    qed
  qed
qed

lemma send_loop_system:
  "system_messages msgs = [system_message settings] \<Longrightarrow> n = 5 - turns \<Longrightarrow>
   send_loop E onToolApproval settings keepGoing turns msgs new tr = (r, tr') \<Longrightarrow>
   \<exists>evs. tr' = tr @ evs \<and> only_synthesized settings evs"
proof (induction n arbitrary: turns msgs new tr keepGoing)
  case 0
  then have "\<not> (keepGoing \<and> turns < 5)" by simp
  with "0.prems"(3) have "tr' = tr @ []" by (subst (asm) send_loop.simps) simp
  moreover have "only_synthesized settings []" by (simp add: only_synthesized_def)
  ultimately show ?case by blast
next
  case (Suc n)
  show ?case
  proof (cases "keepGoing \<and> turns < 5")
    case False
    with Suc.prems(3) have "tr' = tr @ []" by (subst (asm) send_loop.simps) simp
    moreover have "only_synthesized settings []" by (simp add: only_synthesized_def)
    ultimately show ?thesis by blast
  next
    case True
    obtain rb trb where body: "turn_body E onToolApproval settings msgs new tr = (rb, trb)"
      by (cases "turn_body E onToolApproval settings msgs new tr")
    from turn_body_system [OF Suc.prems(1) body] obtain evs1
      where trb: "trb = tr @ evs1" and ok1: "only_synthesized settings evs1"
        and keep: "\<forall>keepGoing msgs' new'. rb = Inr (keepGoing, msgs', new')
               \<longrightarrow> system_messages msgs' = [system_message settings]" by blast
    show ?thesis
    proof (cases rb)
      case (Inl e)
      with True body Suc.prems(3) have "tr' = trb" by (subst (asm) send_loop.simps) simp
      with trb ok1 show ?thesis by blast
    next
      case (Inr st)
      obtain kg msgs' new' where st: "st = (kg, msgs', new')" by (cases st)
      from keep Inr st have inv': "system_messages msgs' = [system_message settings]" by simp
      have n: "n = 5 - Suc turns" using Suc.prems(2) by arith
      have rest: "send_loop E onToolApproval settings kg (Suc turns) msgs' new' trb = (r, tr')"
        using True body Inr st Suc.prems(3) by (subst (asm) send_loop.simps) simp
      from Suc.IH [OF inv' n rest] obtain evs2
        where "tr' = trb @ evs2" "only_synthesized settings evs2" by blast
      with trb ok1 have "tr' = tr @ (evs1 @ evs2)" "only_synthesized settings (evs1 @ evs2)"
        by simp_all
      then show ?thesis by blast
    qed
  qed
qed

lemma limitMsg_events: "snd (limitMsg E tr) = tr @ [DateNow, DateNow]"
  by (simp add: limitMsg_def Date_now_def Let_def)

lemma sendMessage_system:
  "\<exists>evs. snd (sendMessage E settings history currentMessage attachments onToolApproval tr) = tr @ evs
         \<and> only_synthesized settings evs"
proof (cases "active_key settings = []")
  case True
  then have "snd (sendMessage E settings history currentMessage attachments onToolApproval tr)
             = tr @ []" by (simp add: sendMessage_def)
  moreover have "only_synthesized settings []" by (simp add: only_synthesized_def)
  ultimately show ?thesis by blast
next
  case False
  obtain r tr1 where loop: "send_loop E onToolApproval settings True 0
      (initial_apiMessages settings history currentMessage attachments) [] tr = (r, tr1)"
    by (cases "send_loop E onToolApproval settings True 0
      (initial_apiMessages settings history currentMessage attachments) [] tr")
  have "(5::nat) = 5 - 0" by simp
  from send_loop_system [OF system_messages_initial this loop] obtain evs
    where tr1: "tr1 = tr @ evs" and ok: "only_synthesized settings evs" by blast
  have "snd (sendMessage E settings history currentMessage attachments onToolApproval tr) = tr1
        \<or> snd (sendMessage E settings history currentMessage attachments onToolApproval tr)
            = tr1 @ [DateNow, DateNow]"
    using False loop limitMsg_events [of E tr1]
    by (cases r) (auto simp: sendMessage_def split: prod.splits)
  then show ?thesis
  proof
    assume "snd (sendMessage E settings history currentMessage attachments onToolApproval tr) = tr1"
    with tr1 ok show ?thesis by blast
  next
    assume "snd (sendMessage E settings history currentMessage attachments onToolApproval tr)
            = tr1 @ [DateNow, DateNow]"
    moreover have "only_synthesized settings (evs @ [DateNow, DateNow])"
      using ok by (simp add: only_synthesized_def)
    ultimately show ?thesis using tr1 by (intro exI [of _ "evs @ [DateNow, DateNow]"]) simp
  qed
qed

text \<open>
  C10. The system-role messages of the history have no effect on \<open>sendMessage\<close>: the
  result and every event are those of the history without them. The message list built
  for the provider has exactly one system-role entry, the instruction synthesized from
  the settings, and every provider call of the invocation carries that instruction as
  its only system instruction.
\<close>

theorem history_system_messages_dropped:
  "sendMessage E settings (filter (\<lambda>m. msg_role m \<noteq> System) history) currentMessage attachments
       onToolApproval tr
     = sendMessage E settings history currentMessage attachments onToolApproval tr
   \<and> system_messages (initial_apiMessages settings history currentMessage attachments)
       = [system_message settings]
   \<and> (\<exists>evs. snd (sendMessage E settings history currentMessage attachments onToolApproval tr)
               = tr @ evs
             \<and> only_synthesized settings evs)"
  using sendMessage_system [of E settings history currentMessage attachments onToolApproval tr]
  by (simp add: sendMessage_def initial_apiMessages_filter system_messages_initial)

lemma history_trace:
  "snd (sendMessage (agent_env 0) openai_settings french_history ''2+2?'' []
          (\<lambda>tr name args. True) [])
   = [ProviderCall history_request, DateNow, DateNow]"
  by (simp add: scenario_defs run_defs send_defs french_history_def history_request_def
      history_message_def content_val_def openai_payload_def)

theorem history_system_messages_dropped_witness:
  "ProviderCall history_request
     \<in> set (snd (sendMessage (agent_env 0) openai_settings french_history ''2+2?'' []
                   (\<lambda>tr name args. True) []))
   \<and> sent_system_instructions OpenAI history_request
       = [JStr (default_system_prompt @ tools_note)]
   \<and> length (filter (\<lambda>m. msg_role m = System) french_history) = 1"
proof -
  from history_system_messages_dropped [of "agent_env 0" openai_settings french_history
      "''2+2?''" "[]" "\<lambda>tr name args. True" "[]"]
  obtain evs where
    evs: "snd (sendMessage (agent_env 0) openai_settings french_history ''2+2?'' []
                 (\<lambda>tr name args. True) []) = [] @ evs"
    and only: "only_synthesized openai_settings evs" by blast
  from evs have "evs = [ProviderCall history_request, DateNow, DateNow]"
    by (simp add: history_trace)
  then have mem: "ProviderCall history_request \<in> set evs" by simp
  with only have "sent_system_instructions (activeProvider openai_settings) history_request
                  = [JStr (systemInstruction openai_settings)]"
    by (simp add: only_synthesized_def)
  then have sent: "sent_system_instructions OpenAI history_request
                   = [JStr (default_system_prompt @ tools_note)]"
    by (simp add: openai_settings_def no_settings_def systemInstruction_def or_default_def
        activeToolsDefs_def register_server_def register_tool_def local_server_def
        search_tool_def)
  have "length (filter (\<lambda>m. msg_role m = System) french_history) = 1"
    by (simp add: french_history_def)
  with mem evs sent show ?thesis by simp
qed

end
